theory Spec2Isabelle
  imports Complex_Main
begin

section \<open>Values\<close>

text \<open>
  The application keeps every object as the Python value that \<^verbatim>\<open>json.load\<close> produced for
  it: \<^verbatim>\<open>None\<close>, a bool, an int, a float, a string, a list or a dict. A dict is an
  association list in insertion order, which is the order in which Python iterates over it;
  a lookup takes the first entry of a key (a parsed dict has every key once). A float is
  modelled by the real number it denotes: rounding, infinities and NaN are not modelled.
  Strings are lists of characters, and the case conversions below act on the ASCII letters.
  One character outside ASCII, \<open>lone_surrogate\<close>, stands for a surrogate code point
  without its pair, such as the one that the JSON escape \<^verbatim>\<open>\ud800\<close> denotes: a Python
  string can hold it, and UTF-8 cannot encode it.
\<close>

datatype json =
    JNull
  | JBool bool
  | JInt int
  | JFloat real
  | JStr string
  | JList "json list"
  | JDict "(string \<times> json) list"

type_synonym pydict = "(string \<times> json) list"

text \<open>The exceptions that the modelled code raises or catches.\<close>

datatype py_error =
    OSError
  | JSONDecodeError
  | TypeError
  | KeyError
  | AttributeError
  | OverflowError
  | ValueError
  | RecursionError
  | WrappedException

definition has_key :: "pydict \<Rightarrow> string \<Rightarrow> bool" where
  "has_key d k = (map_of d k \<noteq> None)"

definition dict_get :: "pydict \<Rightarrow> string \<Rightarrow> json \<Rightarrow> json" where
  \<comment> \<open>\<^verbatim>\<open>d.get(k, default)\<close>\<close>
  "dict_get d k dflt = (case map_of d k of None \<Rightarrow> dflt | Some v \<Rightarrow> v)"

fun num_value :: "json \<Rightarrow> real option" where
  \<comment> \<open>the numeric value of a Python number; \<^verbatim>\<open>bool\<close> is a subclass of \<^verbatim>\<open>int\<close>\<close>
  "num_value (JBool b) = Some (if b then 1 else 0)"
| "num_value (JInt i) = Some (real_of_int i)"
| "num_value (JFloat r) = Some r"
| "num_value _ = None"

definition py_eq :: "json \<Rightarrow> json \<Rightarrow> bool" where
  \<comment> \<open>\<^verbatim>\<open>==\<close> on hashable values: numbers compare by value across bool, int and float\<close>
  "py_eq a b =
     (case (num_value a, num_value b) of
        (Some x, Some y) \<Rightarrow> x = y
      | (None, None) \<Rightarrow> a = b
      | _ \<Rightarrow> False)"

definition lone_surrogate :: char where
  "lone_surrogate = CHR 0xFF"

definition utf8_encodable :: "string \<Rightarrow> bool" where
  "utf8_encodable s = (lone_surrogate \<notin> set s)"

fun encodable :: "json \<Rightarrow> bool" where
  \<comment> \<open>every string of the value, keys included, can be encoded in UTF-8\<close>
  "encodable (JStr s) = utf8_encodable s"
| "encodable (JList xs) = list_all encodable xs"
| "encodable (JDict d) = list_all (\<lambda>kv. utf8_encodable (fst kv) \<and> encodable (snd kv)) d"
| "encodable v = True"

fun hashable :: "json \<Rightarrow> bool" where
  "hashable (JList _) = False"
| "hashable (JDict _) = False"
| "hashable _ = True"

section \<open>Constants\<close>

definition SCALE_NAMES :: "string list" where
  "SCALE_NAMES =
     [''cosmic'', ''galactic'', ''stellar'', ''planetary'', ''human'',
      ''cellular'', ''molecular'', ''atomic'', ''quantum'']"

section \<open>Files\<close>

text \<open>
  The text of a file is not modelled character by character. \<open>JsonText j\<close> is a text
  that is the JSON notation of the value \<open>j\<close>, such as the one that a completed
  \<^verbatim>\<open>json.dump\<close> of \<open>j\<close> writes; \<open>TruncatedJson j\<close> is what is left of that text when
  \<^verbatim>\<open>json.dump\<close> raises before its end, a text with an opening brace that is never closed;
  \<open>OtherText\<close> is any other text that is not JSON.

  The world says what the calls of the standard library do: \<open>writable\<close> whether
  \<^verbatim>\<open>open(path, 'w')\<close> succeeds; \<open>dump_completes\<close> whether \<^verbatim>\<open>json.dump\<close> of a value whose
  strings can all be encoded runs to its end, within the recursion depth of the interpreter
  and the space of the device; \<open>parse_completes\<close> whether \<^verbatim>\<open>json.load\<close> reads the JSON
  notation of a value back as that value, within the recursion depth. \<open>opened\<close> records
  every path that was opened for writing, in order.
\<close>

datatype file_content = JsonText json | TruncatedJson json | OtherText string

record world =
  files :: "string \<Rightarrow> file_content option"
  writable :: "string \<Rightarrow> bool"
  dump_completes :: "json \<Rightarrow> bool"
  parse_completes :: "json \<Rightarrow> bool"
  opened :: "string list"

definition read_json :: "world \<Rightarrow> string \<Rightarrow> py_error + json" where
  \<comment> \<open>\<^verbatim>\<open>with open(file_path, 'r') as f: raw_data = json.load(f)\<close>\<close>
  "read_json w path =
     (case files w path of
        None \<Rightarrow> Inl OSError
      | Some (OtherText t) \<Rightarrow> Inl JSONDecodeError
      | Some (TruncatedJson j) \<Rightarrow> Inl JSONDecodeError
      | Some (JsonText j) \<Rightarrow> if parse_completes w j then Inr j else Inl RecursionError)"

section \<open>DataLoader\<close>

text \<open>
  \<^verbatim>\<open>for obj in objects_list\<close> iterates over a list's elements, a string's characters or a
  dict's keys; \<^verbatim>\<open>len\<close> of anything else raises \<^verbatim>\<open>TypeError\<close>.
\<close>

fun py_iter :: "json \<Rightarrow> py_error + json list" where
  "py_iter (JList xs) = Inr xs"
| "py_iter (JStr s) = Inr (map (\<lambda>c. JStr [c]) s)"
| "py_iter (JDict d) = Inr (map (\<lambda>kv. JStr (fst kv)) d)"
| "py_iter _ = Inl TypeError"

definition valid_object :: "json \<Rightarrow> bool" where
  \<comment> \<open>the four checks of the loop body of \<^verbatim>\<open>_validate_data\<close>: a record failing one is skipped\<close>
  "valid_object obj =
     (case obj of
        JDict d \<Rightarrow>
          if \<not> has_key d ''id'' \<or> \<not> has_key d ''scale'' \<or> \<not> has_key d ''name'' then False
          else if dict_get d ''scale'' (JStr '''') \<notin> set (map JStr SCALE_NAMES) then False
          else (case map_of d ''data'' of Some (JDict _) \<Rightarrow> True | _ \<Rightarrow> False)
      | _ \<Rightarrow> False)"

fun validate_objects :: "json list \<Rightarrow> json list" where
  \<comment> \<open>the loop that appends the valid records to \<^verbatim>\<open>valid_objects\<close>\<close>
  "validate_objects [] = []"
| "validate_objects (obj # rest) =
     (if valid_object obj then obj # validate_objects rest else validate_objects rest)"

definition validate_data :: "json \<Rightarrow> py_error + json list option" where
  "validate_data raw_data =
     (case (case raw_data of
              JDict d \<Rightarrow> map_sum id Some (py_iter (dict_get d ''objects'' (JList [])))
            | JList xs \<Rightarrow> Inr (Some xs)
            | _ \<Rightarrow> Inr None) of
        Inl e \<Rightarrow> Inl e
      | Inr None \<Rightarrow> Inr None
      | Inr (Some objects_list) \<Rightarrow>
          if objects_list = [] then Inr None
          else let valid_objects = validate_objects objects_list
               in if valid_objects = [] then Inr None else Inr (Some valid_objects))"

text \<open>
  \<^verbatim>\<open>obj["id"]\<close> on a stored object, and the hashing that building or searching the set
  \<^verbatim>\<open>existing_ids\<close> needs.
\<close>

definition object_id :: "json \<Rightarrow> py_error + json" where
  "object_id obj =
     (case obj of
        JDict d \<Rightarrow>
          (case map_of d ''id'' of
             None \<Rightarrow> Inl KeyError
           | Some v \<Rightarrow> if hashable v then Inr v else Inl TypeError)
      | _ \<Rightarrow> Inl TypeError)"

fun object_ids :: "json list \<Rightarrow> py_error + json list" where
  "object_ids [] = Inr []"
| "object_ids (obj # rest) =
     (case object_id obj of
        Inl e \<Rightarrow> Inl e
      | Inr i \<Rightarrow> (case object_ids rest of Inl e \<Rightarrow> Inl e | Inr is \<Rightarrow> Inr (i # is)))"

fun unique_new_objects :: "json list \<Rightarrow> json list \<Rightarrow> py_error + json list" where
  \<comment> \<open>\<^verbatim>\<open>[obj for obj in new_objects if obj["id"] not in existing_ids]\<close>\<close>
  "unique_new_objects existing_ids [] = Inr []"
| "unique_new_objects existing_ids (obj # rest) =
     (case object_id obj of
        Inl e \<Rightarrow> Inl e
      | Inr i \<Rightarrow>
          (case unique_new_objects existing_ids rest of
             Inl e \<Rightarrow> Inl e
           | Inr us \<Rightarrow> Inr (if list_ex (py_eq i) existing_ids then us else obj # us)))"

datatype dialog = JSON_Error_dialog | Error_dialog

record load_outcome =
  returned :: "json list option"
  objects :: "json list"
  shown :: "dialog option"

definition load_body :: "world \<Rightarrow> json list \<Rightarrow> string \<Rightarrow> bool \<Rightarrow> py_error + (json list option \<times> json list)" where
  \<comment> \<open>the \<^verbatim>\<open>try\<close> block of \<^verbatim>\<open>load_file\<close>: the value returned and the new \<^verbatim>\<open>self.objects\<close>\<close>
  "load_body w self_objects file_path append_mode =
     (case read_json w file_path of
        Inl e \<Rightarrow> Inl e
      | Inr raw_data \<Rightarrow>
          (case validate_data raw_data of
             Inl e \<Rightarrow> Inl e
           | Inr None \<Rightarrow> Inr (None, self_objects)
           | Inr (Some new_objects) \<Rightarrow>
               if append_mode \<and> self_objects \<noteq> [] then
                 (case object_ids self_objects of
                    Inl e \<Rightarrow> Inl e
                  | Inr existing_ids \<Rightarrow>
                      (case unique_new_objects existing_ids new_objects of
                         Inl e \<Rightarrow> Inl e
                       | Inr unique \<Rightarrow>
                           Inr (Some (self_objects @ unique), self_objects @ unique)))
               else Inr (Some new_objects, new_objects)))"

definition load_file :: "world \<Rightarrow> json list \<Rightarrow> string \<Rightarrow> bool \<Rightarrow> load_outcome" where
  \<comment> \<open>an exception leaves \<^verbatim>\<open>self.objects\<close> as it was, shows a dialog and returns \<^verbatim>\<open>None\<close>\<close>
  "load_file w self_objects file_path append_mode =
     (case load_body w self_objects file_path append_mode of
        Inr (r, objs) \<Rightarrow> \<lparr>returned = r, objects = objs, shown = None\<rparr>
      | Inl JSONDecodeError \<Rightarrow>
          \<lparr>returned = None, objects = self_objects, shown = Some JSON_Error_dialog\<rparr>
      | Inl _ \<Rightarrow> \<lparr>returned = None, objects = self_objects, shown = Some Error_dialog\<rparr>)"

section \<open>DataExporter\<close>

text \<open>
  The CSV and the TXT writer are parameters of the model: no property below depends on what
  they write. Each takes the world, the path and the objects and gives back what the call
  returns or raises, and the world it leaves.
\<close>

record writers =
  export_csv :: "world \<Rightarrow> string \<Rightarrow> json list \<Rightarrow> (py_error + bool) \<times> world"
  export_txt :: "world \<Rightarrow> string \<Rightarrow> json list \<Rightarrow> (py_error + bool) \<times> world"

definition export_json :: "world \<Rightarrow> string \<Rightarrow> json list \<Rightarrow> (py_error + bool) \<times> world" where
  \<comment> \<open>a failure inside the \<^verbatim>\<open>try\<close> block is raised again as a plain \<^verbatim>\<open>Exception\<close>.
      With \<^verbatim>\<open>ensure_ascii=False\<close> the strings are written as they are, and the file raises
      \<^verbatim>\<open>UnicodeEncodeError\<close> at the first one that UTF-8 cannot encode; what was written
      before stays in the file\<close>
  "export_json w file_path objs =
     (if objs = [] then (Inr False, w)
      else if \<not> writable w file_path then (Inl WrappedException, w)
      else
        let data = JDict [(''objects'', JList objs)]
        in if encodable data \<and> dump_completes w data then
             (Inr True,
              w\<lparr>files := (files w)(file_path \<mapsto> JsonText data),
                opened := opened w @ [file_path]\<rparr>)
           else
             (Inl WrappedException,
              w\<lparr>files := (files w)(file_path \<mapsto> TruncatedJson data),
                opened := opened w @ [file_path]\<rparr>))"

definition export_data ::
  "writers \<Rightarrow> world \<Rightarrow> string \<Rightarrow> json list \<Rightarrow> string \<Rightarrow> (py_error + bool) \<times> world" where
  "export_data W w file_path objs format_type =
     (if objs = [] then (Inl ValueError, w)
      else if format_type = ''csv'' then export_csv W w file_path objs
      else if format_type = ''json'' then export_json w file_path objs
      else if format_type = ''txt'' then export_txt W w file_path objs
      else (Inl ValueError, w))"

section \<open>Strings and numbers\<close>

text \<open>
  The model covers ASCII strings: \<open>lower\<close> is \<^verbatim>\<open>str.lower\<close> and \<open>is_digit\<close> is
  \<^verbatim>\<open>str.isdigit\<close> on ASCII characters, and \<open>contains t s\<close> is \<^verbatim>\<open>t in s\<close> on strings.
\<close>

definition lower_char :: "char \<Rightarrow> char" where
  "lower_char c =
     (case map_of (zip ''ABCDEFGHIJKLMNOPQRSTUVWXYZ'' ''abcdefghijklmnopqrstuvwxyz'') c of
        None \<Rightarrow> c
      | Some l \<Rightarrow> l)"

definition lower :: "string \<Rightarrow> string" where
  "lower s = map lower_char s"

fun contains :: "string \<Rightarrow> string \<Rightarrow> bool" where
  "contains t [] = (t = [])"
| "contains t (c # s) = (take (length t) (c # s) = t \<or> contains t s)"

definition is_digit :: "char \<Rightarrow> bool" where
  "is_digit c = (c \<in> set ''0123456789'')"

definition digit_value :: "char \<Rightarrow> nat" where
  "digit_value c =
     (case map_of (zip ''0123456789'' [0, 1, 2, 3, 4, 5, 6, 7, 8, 9]) c of
        None \<Rightarrow> 0
      | Some n \<Rightarrow> n)"

definition digits_value :: "string \<Rightarrow> nat" where
  "digits_value ds = foldl (\<lambda>a c. 10 * a + digit_value c) 0 ds"

definition py_float :: "string \<Rightarrow> real option" where
  \<comment> \<open>\<^verbatim>\<open>float(s)\<close> for a string of digits, dots and minus signs; \<open>None\<close> is \<^verbatim>\<open>ValueError\<close>\<close>
  "py_float s =
     (let negative = (s \<noteq> [] \<and> hd s = CHR ''-'');
          body = (if negative then tl s else s);
          int_part = takeWhile is_digit body;
          rest = dropWhile is_digit body;
          sign = (if negative then - 1 else 1)
      in case rest of
           [] \<Rightarrow> if int_part = [] then None else Some (sign * real (digits_value int_part))
         | c # frac_part \<Rightarrow>
             if c \<noteq> CHR ''.'' \<or> \<not> list_all is_digit frac_part \<or> (int_part = [] \<and> frac_part = [])
             then None
             else Some (sign * (real (digits_value int_part)
                                + real (digits_value frac_part) / 10 ^ length frac_part)))"

definition float_overflows :: "int \<Rightarrow> bool" where
  \<comment> \<open>\<^verbatim>\<open>float(i)\<close> raises \<^verbatim>\<open>OverflowError\<close> when \<open>i\<close> rounds beyond the largest double\<close>
  "float_overflows i = (\<bar>i\<bar> \<ge> 2 ^ 1024 - 2 ^ 970)"

definition numeric_str :: "string \<Rightarrow> string" where
  \<comment> \<open>\<^verbatim>\<open>''.join(c for c in value if c.isdigit() or c == '.' or c == '-')\<close>\<close>
  "numeric_str s = filter (\<lambda>c. is_digit c \<or> c = CHR ''.'' \<or> c = CHR ''-'') s"

definition extract_numeric_value :: "json \<Rightarrow> py_error + real option" where
  \<comment> \<open>\<^verbatim>\<open>_extract_numeric_value\<close>, the same in the detector and in the similarity finder\<close>
  "extract_numeric_value v =
     (case v of
        JBool b \<Rightarrow> Inr (Some (if b then 1 else 0))
      | JInt i \<Rightarrow> if float_overflows i then Inl OverflowError else Inr (Some (real_of_int i))
      | JFloat r \<Rightarrow> Inr (Some r)
      | JStr s \<Rightarrow> if numeric_str s = [] then Inr None else Inr (py_float (numeric_str s))
      | _ \<Rightarrow> Inr None)"

section \<open>CrystalDetector\<close>

text \<open>
  An entry of the criteria table. Every entry of the table has a field and a priority, so
  the \<^verbatim>\<open>continue\<close> for a missing field and the default priority never apply; the other
  keys are optional.
\<close>

record criterion =
  c_field :: string
  c_exists :: "bool option"
  c_values :: "string list option"
  c_min_value :: "int option"
  c_pattern :: "string option"
  c_priority :: int

definition exists_criterion :: "string \<Rightarrow> int \<Rightarrow> criterion" where
  "exists_criterion f p =
     \<lparr>c_field = f, c_exists = Some True, c_values = None, c_min_value = None,
      c_pattern = None, c_priority = p\<rparr>"

definition criteria :: "criterion list" where
  "criteria =
     [exists_criterion ''period'' 3,
      exists_criterion ''orbital_period'' 3,
      exists_criterion ''rotation_period'' 3,
      exists_criterion ''oscillation_period'' 3,
      exists_criterion ''cycle_duration'' 3,
      exists_criterion ''frequency'' 3,
      exists_criterion ''peak_frequency'' 3,
      exists_criterion ''resonance_frequency'' 3,
      exists_criterion ''pulsation_frequency'' 3,
      exists_criterion ''rotation_curve_flat_velocity'' 2,
      exists_criterion ''rotation_velocity'' 2,
      exists_criterion ''angular_velocity'' 2,
      \<lparr>c_field = ''spin'', c_exists = None, c_values = Some [''1/2'', ''1'', ''3/2''],
       c_min_value = None, c_pattern = None, c_priority = 2\<rparr>,
      exists_criterion ''elementary_charge'' 2,
      exists_criterion ''energy'' 2,
      \<lparr>c_field = ''lifetime'', c_exists = None, c_values = None,
       c_min_value = Some 100, c_pattern = None, c_priority = 1\<rparr>,
      exists_criterion ''age'' 1,
      exists_criterion ''coherence_time'' 1,
      \<lparr>c_field = ''symmetry'', c_exists = None, c_values = None,
       c_min_value = None, c_pattern = Some ''breaking'', c_priority = 1\<rparr>,
      exists_criterion ''bond_angle'' 1]"

definition preferred_scales :: "string list" where
  "preferred_scales =
     [''quantum'', ''atomic'', ''molecular'', ''cellular'', ''human'', ''planetary'',
      ''stellar'', ''galactic'', ''cosmic'']"

definition periodicity_fields :: "string list" where
  "periodicity_fields =
     [''frequency'', ''period'', ''orbital_period'', ''rotation_period'',
      ''oscillation_period'', ''cycle_duration'', ''peak_frequency'',
      ''pulsation_frequency'', ''resonance_frequency'', ''angular_velocity'',
      ''rotation_curve_flat_velocity'', ''rotation_velocity'']"

definition quantum_fields :: "string list" where
  "quantum_fields =
     [''spin'', ''elementary_charge'', ''first_ionization_energy'',
      ''electron_affinity'', ''energy'', ''momentum'', ''ground_state_wavelength'']"

definition longevity_fields :: "string list" where
  "longevity_fields =
     [''lifetime'', ''age'', ''life_expectancy_global'', ''coherence_time'',
      ''half_life'', ''stability'']"

definition symmetry_fields :: "string list" where
  \<comment> \<open>the third name has two en dashes in the source, each written here as one character
      outside ASCII\<close>
  "symmetry_fields =
     [''symmetry'', ''bond_angle'', ''H'' @ [CHR 0x96] @ ''O'' @ [CHR 0x96] @ ''H bond_angle'',
      ''lattice_symmetry'', ''molecular_symmetry'', ''spatial_symmetry'']"

definition mass_fields :: "string list" where
  "mass_fields =
     [''mass'', ''stellar_mass'', ''rest_mass'', ''atomic_radius'',
      ''molecular_weight'', ''density'', ''critical_density'']"

definition amplitude_fields :: "string list" where
  "amplitude_fields =
     [''amplitude'', ''temperature_anisotropy_rms'', ''wave_height'',
      ''oscillation_amplitude'', ''vibration_amplitude'', ''luminosity'']"

definition field_categories :: "string list list" where
  \<comment> \<open>the values of the dict \<^verbatim>\<open>field_categories\<close>, in its order\<close>
  "field_categories =
     [periodicity_fields, quantum_fields, longevity_fields, symmetry_fields, mass_fields,
      amplitude_fields]"

type_synonym matched = "(string \<times> json) option"

definition truthy_field :: "matched \<Rightarrow> bool" where
  \<comment> \<open>\<^verbatim>\<open>if matched_field:\<close> holds for a name that is set and not empty\<close>
  "truthy_field m = (case m of None \<Rightarrow> False | Some (k, v) \<Rightarrow> k \<noteq> [])"

fun category_search :: "string \<Rightarrow> string list list \<Rightarrow> pydict \<Rightarrow> matched \<Rightarrow> matched" where
  \<comment> \<open>the loop over the categories: in a category that has the criterion's field, the first
      entry of the object's data whose name is in the category; the loop stops once a field
      is matched\<close>
  "category_search f [] obj_data m = m"
| "category_search f (cat_fields # rest) obj_data m =
     (let m' = (if f \<in> set cat_fields
                then (case find (\<lambda>kv. fst kv \<in> set cat_fields) obj_data of
                        None \<Rightarrow> m
                      | Some kv \<Rightarrow> Some kv)
                else m)
      in if truthy_field m' then m' else category_search f rest obj_data m')"

definition find_match :: "string \<Rightarrow> pydict \<Rightarrow> matched" where
  "find_match criterion_field obj_data =
     (case map_of obj_data criterion_field of
        Some v \<Rightarrow> Some (criterion_field, v)
      | None \<Rightarrow> category_search criterion_field field_categories obj_data None)"

definition suggests_periodicity :: "string \<Rightarrow> bool" where
  "suggests_periodicity obj_field =
     list_ex (\<lambda>t. contains t (lower obj_field))
       [''period'', ''cycle'', ''frequen'', ''rotat'', ''orbit'', ''oscill'', ''veloc'']"

record eval_state =
  score :: int
  criteria_matched :: nat
  periodicity_matched :: nat

definition match_score :: "(json \<Rightarrow> string) \<Rightarrow> criterion \<Rightarrow> json \<Rightarrow> py_error + int" where
  \<comment> \<open>the \<^verbatim>\<open>if\<close>/\<^verbatim>\<open>elif\<close> chain on the kind of the criterion; \<open>py_str\<close> is \<^verbatim>\<open>str\<close>\<close>
  "match_score py_str c matched_value =
     (case c_min_value c of
        Some m \<Rightarrow>
          (case extract_numeric_value matched_value of
             Inl e \<Rightarrow> Inl e
           | Inr None \<Rightarrow> Inr 0
           | Inr (Some x) \<Rightarrow> Inr (if x \<ge> real_of_int m then 2 else 0))
      | None \<Rightarrow>
          (case c_values c of
             Some vs \<Rightarrow>
               Inr (if list_ex (\<lambda>v. contains (lower v) (lower (py_str matched_value))) vs
                    then 2 else 0)
           | None \<Rightarrow>
               (case (c_pattern c, matched_value) of
                  (Some p, JStr s) \<Rightarrow> Inr (if contains (lower p) (lower s) then 2 else 0)
                | _ \<Rightarrow> Inr (if c_exists c = Some True then 1 else 0))))"

definition scale_bonus :: "json \<Rightarrow> string \<Rightarrow> int" where
  \<comment> \<open>the points that depend on the scale of the object and on the matched field\<close>
  "scale_bonus obj_scale matched_field =
     (if obj_scale = JStr ''quantum'' \<and> matched_field \<in> set quantum_fields then 2
      else if obj_scale = JStr ''atomic'' \<and> matched_field \<in> set quantum_fields then 1
      else if obj_scale = JStr ''molecular'' \<and> contains ''bond'' matched_field then 1
      else if obj_scale = JStr ''planetary'' \<and> matched_field \<in> set periodicity_fields then 2
      else if obj_scale = JStr ''stellar'' \<and> matched_field \<in> set periodicity_fields then 2
      else if obj_scale = JStr ''galactic'' \<and> contains ''rotation'' matched_field then 2
      else 0)"

definition criterion_step ::
  "(json \<Rightarrow> string) \<Rightarrow> json \<Rightarrow> pydict \<Rightarrow> criterion \<Rightarrow> eval_state \<Rightarrow> py_error + eval_state" where
  \<comment> \<open>one pass of the loop over the criteria\<close>
  "criterion_step py_str obj_scale obj_data c st =
     (let m = find_match (c_field c) obj_data
      in if \<not> truthy_field m \<or> map_option snd m = Some JNull then
           Inr (if c_exists c = Some True \<and> c_field c \<in> set periodicity_fields
                   \<and> list_ex (\<lambda>kv. suggests_periodicity (fst kv)) obj_data
                then st\<lparr>score := score st + 2 * c_priority c,
                        criteria_matched := criteria_matched st + 1,
                        periodicity_matched := periodicity_matched st + 1\<rparr>
                else st)
         else
           (case match_score py_str c (snd (the m)) of
              Inl e \<Rightarrow> Inl e
            | Inr ms \<Rightarrow>
                let matched_field = fst (the m);
                    st1 = (if ms > 0
                           then st\<lparr>score := score st + ms * c_priority c,
                                   criteria_matched := criteria_matched st + 1,
                                   periodicity_matched :=
                                     (if matched_field \<in> set periodicity_fields
                                      then periodicity_matched st + 1
                                      else periodicity_matched st)\<rparr>
                           else st);
                    st2 = (if matched_field \<in> set periodicity_fields
                           then st1\<lparr>score := score st1 + 2\<rparr> else st1)
                in Inr (st2\<lparr>score := score st2 + scale_bonus obj_scale matched_field\<rparr>)))"

fun run_criteria ::
  "(json \<Rightarrow> string) \<Rightarrow> json \<Rightarrow> pydict \<Rightarrow> criterion list \<Rightarrow> eval_state \<Rightarrow> py_error + eval_state" where
  "run_criteria py_str obj_scale obj_data [] st = Inr st"
| "run_criteria py_str obj_scale obj_data (c # cs) st =
     (case criterion_step py_str obj_scale obj_data c st of
        Inl e \<Rightarrow> Inl e
      | Inr st' \<Rightarrow> run_criteria py_str obj_scale obj_data cs st')"

definition final_score :: "eval_state \<Rightarrow> int" where
  \<comment> \<open>the bonuses for several matches, then \<^verbatim>\<open>min(10, score)\<close>\<close>
  "final_score st =
     (let s1 = score st
               + (if criteria_matched st \<ge> 4 then 4
                  else if criteria_matched st \<ge> 3 then 3
                  else if criteria_matched st \<ge> 2 then 1 else 0);
          s2 = s1 + (if periodicity_matched st \<ge> 2 then 3
                     else if periodicity_matched st \<ge> 1 then 1 else 0)
      in min 10 s2)"

fun non_dict_error :: "json \<Rightarrow> py_error" where
  \<comment> \<open>a \<^verbatim>\<open>data\<close> entry that is not a dict makes the first pass of the loop raise: the test
      \<^verbatim>\<open>"period" in obj_data\<close>, the subscript after it or the call of \<^verbatim>\<open>items\<close>\<close>
  "non_dict_error (JStr s) = (if contains ''period'' s then TypeError else AttributeError)"
| "non_dict_error (JList xs) = (if JStr ''period'' \<in> set xs then TypeError else AttributeError)"
| "non_dict_error _ = TypeError"

definition evaluate_candidate :: "(json \<Rightarrow> string) \<Rightarrow> pydict \<Rightarrow> py_error + int" where
  "evaluate_candidate py_str obj =
     (if obj = [] \<or> \<not> has_key obj ''data'' then Inr 0
      else
        let obj_scale = dict_get obj ''scale'' (JStr '''');
            score0 = (if obj_scale \<in> set (map JStr preferred_scales) then 1 else 0)
        in case dict_get obj ''data'' (JDict []) of
             JDict obj_data \<Rightarrow>
               (case run_criteria py_str obj_scale obj_data criteria
                       \<lparr>score = score0, criteria_matched = 0, periodicity_matched = 0\<rparr> of
                  Inl e \<Rightarrow> Inl e
                | Inr st \<Rightarrow> Inr (final_score st))
           | other \<Rightarrow> Inl (non_dict_error other))"

text \<open>
  \<^verbatim>\<open>_generate_explanation\<close> builds a text from templates; the text is the parameter
  \<open>render\<close>. The lookup of the scale in the dict of templates needs a hashable scale.
\<close>

definition generate_explanation ::
  "(pydict \<Rightarrow> int \<Rightarrow> string) \<Rightarrow> pydict \<Rightarrow> int \<Rightarrow> py_error + string" where
  "generate_explanation render obj s =
     (if hashable (dict_get obj ''scale'' (JStr ''unknown'')) then Inr (render obj s)
      else Inl TypeError)"

record candidate =
  cand_object :: pydict
  cand_score :: int
  cand_explanation :: string

fun collect_candidates ::
  "(json \<Rightarrow> string) \<Rightarrow> (pydict \<Rightarrow> int \<Rightarrow> string) \<Rightarrow> pydict list \<Rightarrow> py_error + candidate list" where
  \<comment> \<open>the loop of \<^verbatim>\<open>find_candidates\<close> that appends a candidate for each object with a
      positive score\<close>
  "collect_candidates py_str render [] = Inr []"
| "collect_candidates py_str render (obj # rest) =
     (case evaluate_candidate py_str obj of
        Inl e \<Rightarrow> Inl e
      | Inr s \<Rightarrow>
          if s > 0 then
            (case generate_explanation render obj s of
               Inl e \<Rightarrow> Inl e
             | Inr expl \<Rightarrow>
                 (case collect_candidates py_str render rest of
                    Inl e \<Rightarrow> Inl e
                  | Inr cs \<Rightarrow>
                      Inr (\<lparr>cand_object = obj, cand_score = s, cand_explanation = expl\<rparr> # cs)))
          else collect_candidates py_str render rest)"

definition find_candidates ::
  "(json \<Rightarrow> string) \<Rightarrow> (pydict \<Rightarrow> int \<Rightarrow> string) \<Rightarrow> pydict list \<Rightarrow> py_error + candidate list" where
  \<comment> \<open>\<^verbatim>\<open>candidates.sort(key=..., reverse=True)\<close> is a stable sort by descending score\<close>
  "find_candidates py_str render objs =
     (case collect_candidates py_str render objs of
        Inl e \<Rightarrow> Inl e
      | Inr cs \<Rightarrow> Inr (sort_key (\<lambda>c. - cand_score c) cs))"

section \<open>Equality of values\<close>

text \<open>
  \<^verbatim>\<open>==\<close> on any two values: numbers compare by value, lists element by element, dicts as
  mappings whatever the order of their entries, and values of different kinds are unequal.
\<close>

fun py_equal :: "json \<Rightarrow> json \<Rightarrow> bool" where
  "py_equal (JList xs) (JList ys) = list_all2 py_equal xs ys"
| "py_equal (JDict d) (JDict e) =
     (list_all (\<lambda>kv. case map_of e (fst kv) of None \<Rightarrow> False | Some v \<Rightarrow> py_equal (snd kv) v) d
      \<and> list_all (\<lambda>kv. has_key d (fst kv)) e)"
| "py_equal a b = py_eq a b"

section \<open>Property similarity of the heatmap and of the network graph\<close>

definition heatmap_property_fields :: "string \<Rightarrow> string list" where
  \<comment> \<open>\<^verbatim>\<open>HeatmapView.get_property_fields\<close>\<close>
  "heatmap_property_fields property_type =
     (if property_type = ''periodicity'' then
        [''period'', ''frequency'', ''orbital_period'', ''rotation_period'',
         ''oscillation_period'', ''cycle_duration'', ''peak_frequency'',
         ''rotation_curve_flat_velocity'', ''rotation_velocity'', ''angular_velocity'']
      else if property_type = ''energy'' then
        [''energy'', ''luminosity'', ''first_ionization_energy'', ''electron_affinity'',
         ''mean_temperature'', ''critical_density'']
      else if property_type = ''mass'' then
        [''mass'', ''stellar_mass'', ''rest_mass'', ''density'', ''molecular_weight'',
         ''atomic_radius'']
      else [])"

definition netgraph_property_fields :: "string \<Rightarrow> string list" where
  \<comment> \<open>the table of \<^verbatim>\<open>NetworkGraphView.calculate_edges\<close>\<close>
  "netgraph_property_fields property_type =
     (if property_type = ''periodicity'' then
        [''period'', ''frequency'', ''orbital_period'', ''rotation_period'',
         ''oscillation_period'', ''cycle_duration'', ''peak_frequency'',
         ''rotation_curve_flat_velocity'', ''rotation_velocity'']
      else if property_type = ''energy'' then
        [''energy'', ''luminosity'', ''first_ionization_energy'', ''electron_affinity'']
      else if property_type = ''mass'' then
        [''mass'', ''stellar_mass'', ''rest_mass'']
      else [])"

text \<open>
  The operations that the two functions apply to the \<^verbatim>\<open>data\<close> entries, on any value:
  \<^verbatim>\<open>field in data\<close>, \<^verbatim>\<open>data.items()\<close> and \<^verbatim>\<open>data.get(field)\<close>.
\<close>

fun py_in :: "string \<Rightarrow> json \<Rightarrow> py_error + bool" where
  "py_in k (JDict d) = Inr (has_key d k)"
| "py_in k (JList xs) = Inr (list_ex (py_equal (JStr k)) xs)"
| "py_in k (JStr s) = Inr (contains k s)"
| "py_in k _ = Inl TypeError"

fun py_items :: "json \<Rightarrow> py_error + pydict" where
  "py_items (JDict d) = Inr d"
| "py_items _ = Inl AttributeError"

fun py_get :: "json \<Rightarrow> string \<Rightarrow> py_error + json" where
  "py_get (JDict d) k = Inr (dict_get d k JNull)"
| "py_get _ k = Inl AttributeError"

datatype matching = Exact string | Paired string string

fun exact_fields :: "json \<Rightarrow> json \<Rightarrow> string list \<Rightarrow> py_error + string list" where
  \<comment> \<open>the fields of \<^verbatim>\<open>property_fields\<close> that are in both data maps\<close>
  "exact_fields data1 data2 [] = Inr []"
| "exact_fields data1 data2 (f # fs) =
     (case py_in f data1 of
        Inl e \<Rightarrow> Inl e
      | Inr in1 \<Rightarrow>
          (case (if in1 then py_in f data2 else Inr False) of
             Inl e \<Rightarrow> Inl e
           | Inr in2 \<Rightarrow>
               (case exact_fields data1 data2 fs of
                  Inl e \<Rightarrow> Inl e
                | Inr r \<Rightarrow> Inr (if in2 then f # r else r))))"

definition similar_meaning :: "string \<Rightarrow> string \<Rightarrow> bool" where
  "similar_meaning field1 field2 =
     list_ex (\<lambda>t. contains t (lower field1) \<and> contains t (lower field2))
       [''period'', ''frequency'', ''mass'', ''energy'', ''time'', ''cycle'']"

definition similar_prefix :: "string \<Rightarrow> string \<Rightarrow> bool" where
  "similar_prefix field1 field2 =
     ((take 5 field1 = take 5 field2 \<and> length field1 > 4) \<or> field1 = field2)"

fun pair_loop :: "(string \<Rightarrow> string \<Rightarrow> bool) \<Rightarrow> pydict \<Rightarrow> json \<Rightarrow> py_error + matching list" where
  \<comment> \<open>for each field of the first map, the first field of the second map that it is
      similar to\<close>
  "pair_loop similar [] data2 = Inr []"
| "pair_loop similar (kv1 # rest) data2 =
     (case py_items data2 of
        Inl e \<Rightarrow> Inl e
      | Inr items2 \<Rightarrow>
          (case pair_loop similar rest data2 of
             Inl e \<Rightarrow> Inl e
           | Inr ps \<Rightarrow>
               Inr (case find (\<lambda>kv2. similar (fst kv1) (fst kv2)) items2 of
                      None \<Rightarrow> ps
                    | Some kv2 \<Rightarrow> Paired (fst kv1) (fst kv2) # ps)))"

definition paired_fields :: "(string \<Rightarrow> string \<Rightarrow> bool) \<Rightarrow> json \<Rightarrow> json \<Rightarrow> py_error + matching list" where
  "paired_fields similar data1 data2 =
     (case py_items data1 of Inl e \<Rightarrow> Inl e | Inr items1 \<Rightarrow> pair_loop similar items1 data2)"

definition matching_props :: "json \<Rightarrow> json \<Rightarrow> string list \<Rightarrow> py_error + matching list" where
  \<comment> \<open>the three passes that fill \<^verbatim>\<open>matching_props\<close>, each run when the one before it
      found nothing\<close>
  "matching_props data1 data2 property_fields =
     (case exact_fields data1 data2 property_fields of
        Inl e \<Rightarrow> Inl e
      | Inr fs \<Rightarrow>
          if fs \<noteq> [] then Inr (map Exact fs)
          else
            (case paired_fields similar_meaning data1 data2 of
               Inl e \<Rightarrow> Inl e
             | Inr ps \<Rightarrow>
                 if ps \<noteq> [] then Inr ps else paired_fields similar_prefix data1 data2))"

definition view_extract_numeric_value :: "json \<Rightarrow> py_error + real option" where
  \<comment> \<open>\<^verbatim>\<open>extract_numeric_value\<close> of the two views\<close>
  "view_extract_numeric_value v = (if v = JNull then Inr None else extract_numeric_value v)"

definition ratio_term :: "real \<Rightarrow> json \<Rightarrow> string \<Rightarrow> json \<Rightarrow> string \<Rightarrow> py_error + real" where
  \<comment> \<open>what one matching property adds to the similarity, with its weight\<close>
  "ratio_term weight data1 field1 data2 field2 =
     (case py_get data1 field1 of
        Inl e \<Rightarrow> Inl e
      | Inr j1 \<Rightarrow>
          (case view_extract_numeric_value j1 of
             Inl e \<Rightarrow> Inl e
           | Inr value1 \<Rightarrow>
               (case py_get data2 field2 of
                  Inl e \<Rightarrow> Inl e
                | Inr j2 \<Rightarrow>
                    (case view_extract_numeric_value j2 of
                       Inl e \<Rightarrow> Inl e
                     | Inr value2 \<Rightarrow>
                         Inr (case (value1, value2) of
                                (Some x, Some y) \<Rightarrow>
                                  if max x y > 0 then (min x y / max x y) * weight else 0
                              | _ \<Rightarrow> 0)))))"

fun sum_terms :: "json \<Rightarrow> json \<Rightarrow> matching list \<Rightarrow> real \<Rightarrow> py_error + real" where
  \<comment> \<open>the loop that adds up the similarity, from the value it has so far\<close>
  "sum_terms data1 data2 [] similarity = Inr similarity"
| "sum_terms data1 data2 (p # ps) similarity =
     (case (case p of
              Exact field \<Rightarrow> ratio_term 0.5 data1 field data2 field
            | Paired field1 field2 \<Rightarrow> ratio_term 0.3 data1 field1 data2 field2) of
        Inl e \<Rightarrow> Inl e
      | Inr t \<Rightarrow> sum_terms data1 data2 ps (similarity + t))"

definition same_scale :: "pydict \<Rightarrow> pydict \<Rightarrow> bool" where
  \<comment> \<open>\<^verbatim>\<open>obj1.get("scale") == obj2.get("scale")\<close>\<close>
  "same_scale obj1 obj2 = py_equal (dict_get obj1 ''scale'' JNull) (dict_get obj2 ''scale'' JNull)"

definition heatmap_similarity :: "pydict \<Rightarrow> pydict \<Rightarrow> string list \<Rightarrow> py_error + real" where
  \<comment> \<open>\<^verbatim>\<open>HeatmapView.calculate_property_similarity\<close>\<close>
  "heatmap_similarity obj1 obj2 property_fields =
     (let data1 = dict_get obj1 ''data'' (JDict []);
          data2 = dict_get obj2 ''data'' (JDict [])
      in case matching_props data1 data2 property_fields of
           Inl e \<Rightarrow> Inl e
         | Inr props \<Rightarrow>
             if props = [] then Inr (if same_scale obj1 obj2 then 0.3 else 0.1)
             else
               (case sum_terms data1 data2 props 0 of
                  Inl e \<Rightarrow> Inl e
                | Inr similarity \<Rightarrow>
                    Inr (min 1 (if same_scale obj1 obj2 then similarity + 0.3 else similarity))))"

definition netgraph_similarity :: "pydict \<Rightarrow> pydict \<Rightarrow> string list \<Rightarrow> py_error + real" where
  \<comment> \<open>\<^verbatim>\<open>NetworkGraphView.calculate_property_similarity\<close>\<close>
  "netgraph_similarity obj1 obj2 property_fields =
     (let data1 = dict_get obj1 ''data'' (JDict []);
          data2 = dict_get obj2 ''data'' (JDict [])
      in case matching_props data1 data2 property_fields of
           Inl e \<Rightarrow> Inl e
         | Inr props \<Rightarrow>
             if props = [] then Inr (if same_scale obj1 obj2 then 0.2 else 0.1)
             else
               (case sum_terms data1 data2 props 0 of
                  Inl e \<Rightarrow> Inl e
                | Inr similarity \<Rightarrow>
                    Inr (min 1 (if same_scale obj1 obj2 then similarity + 0.3 else similarity))))"

section \<open>SimilarityFinder\<close>

definition is_numeric_field :: "json \<Rightarrow> bool" where
  "is_numeric_field v =
     (case v of
        JBool b \<Rightarrow> True
      | JInt i \<Rightarrow> True
      | JFloat r \<Rightarrow> True
      | JStr s \<Rightarrow> numeric_str s \<noteq> [] \<and> py_float (numeric_str s) \<noteq> None
      | _ \<Rightarrow> False)"

definition similar_fields_map :: "(string \<times> string list) list" where
  "similar_fields_map =
     [(''mass'', [''mass'', ''stellar_mass'', ''mass_mean'', ''rest_mass'']),
      (''radius'', [''radius'', ''mean_radius'', ''comoving_diameter'', ''disk_diameter'',
                    ''diameter'', ''soma_diameter'']),
      (''energy'', [''energy'', ''luminosity'', ''first_ionization_energy'']),
      (''time'', [''age'', ''orbital_period'', ''lifetime'', ''life_expectancy_global'']),
      (''temperature'', [''mean_temperature'', ''temperature_anisotropy_rms''])]"

definition field_to_category :: "string \<Rightarrow> string option" where
  \<comment> \<open>the reverse map; no field is in two categories\<close>
  "field_to_category f =
     map_of (concat (map (\<lambda>(category, fs). map (\<lambda>g. (g, category)) fs) similar_fields_map)) f"

definition numeric_keys :: "json \<Rightarrow> py_error + string list" where
  \<comment> \<open>the keys of the numeric entries of \<^verbatim>\<open>data.items()\<close>\<close>
  "numeric_keys data =
     (case py_items data of
        Inl e \<Rightarrow> Inl e
      | Inr items \<Rightarrow> Inr (map fst (filter (\<lambda>kv. is_numeric_field (snd kv)) items)))"

fun all_numeric_keys :: "pydict list \<Rightarrow> py_error + string list" where
  \<comment> \<open>the numeric fields of all the objects that have a \<^verbatim>\<open>data\<close> entry\<close>
  "all_numeric_keys [] = Inr []"
| "all_numeric_keys (obj # rest) =
     (case (if has_key obj ''data'' then numeric_keys (dict_get obj ''data'' JNull) else Inr []) of
        Inl e \<Rightarrow> Inl e
      | Inr ks \<Rightarrow>
          (case all_numeric_keys rest of Inl e \<Rightarrow> Inl e | Inr ks' \<Rightarrow> Inr (ks @ ks')))"

definition source_fields_of :: "pydict \<Rightarrow> pydict list \<Rightarrow> py_error + string list" where
  \<comment> \<open>the numeric fields of the source object or, when it has none, of all the objects. The
      second list comes from a Python set, whose order is not fixed; the distances below do
      not depend on the order of the columns, and the model takes the order of first
      occurrence\<close>
  "source_fields_of source_object all_objects =
     (case (if source_object \<noteq> [] \<and> has_key source_object ''data''
            then numeric_keys (dict_get source_object ''data'' JNull) else Inr []) of
        Inl e \<Rightarrow> Inl e
      | Inr source_fields \<Rightarrow>
          if source_fields \<noteq> [] then Inr source_fields
          else map_sum id remdups (all_numeric_keys all_objects))"

fun first_in_category :: "string \<Rightarrow> pydict \<Rightarrow> py_error + real option" where
  \<comment> \<open>the first entry of the category that has a numeric value\<close>
  "first_in_category category [] = Inr None"
| "first_in_category category (kv # rest) =
     (if field_to_category (fst kv) = Some category then
        (case extract_numeric_value (snd kv) of
           Inl e \<Rightarrow> Inl e
         | Inr (Some x) \<Rightarrow> Inr (Some x)
         | Inr None \<Rightarrow> first_in_category category rest)
      else first_in_category category rest)"

definition feature_of :: "string \<Rightarrow> json \<Rightarrow> py_error + real option" where
  \<comment> \<open>the value of one field for one object: \<open>None\<close> when the placeholder 0 is appended
      and the field does not count as found\<close>
  "feature_of f data =
     (case py_in f data of
        Inl e \<Rightarrow> Inl e
      | Inr True \<Rightarrow>
          (case data of
             JDict d \<Rightarrow> extract_numeric_value (dict_get d f JNull)
           | _ \<Rightarrow> Inl TypeError)
      | Inr False \<Rightarrow>
          (case field_to_category f of
             None \<Rightarrow> Inr None
           | Some category \<Rightarrow>
               (case py_items data of
                  Inl e \<Rightarrow> Inl e
                | Inr items \<Rightarrow> first_in_category category items)))"

fun object_features :: "string list \<Rightarrow> json \<Rightarrow> py_error + (real list \<times> nat)" where
  \<comment> \<open>the feature row of an object and the number of fields found\<close>
  "object_features [] data = Inr ([], 0)"
| "object_features (f # fs) data =
     (case feature_of f data of
        Inl e \<Rightarrow> Inl e
      | Inr v \<Rightarrow>
          (case object_features fs data of
             Inl e \<Rightarrow> Inl e
           | Inr (xs, fields_found) \<Rightarrow>
               Inr (case v of
                      None \<Rightarrow> (0 # xs, fields_found)
                    | Some x \<Rightarrow> (x # xs, Suc fields_found))))"

fun feature_rows :: "string list \<Rightarrow> pydict list \<Rightarrow> py_error + (real list \<times> pydict) list" where
  \<comment> \<open>the rows of the objects with at least two fields found, each with its object\<close>
  "feature_rows source_fields [] = Inr []"
| "feature_rows source_fields (obj # rest) =
     (if \<not> has_key obj ''data'' then feature_rows source_fields rest
      else
        (case object_features source_fields (dict_get obj ''data'' JNull) of
           Inl e \<Rightarrow> Inl e
         | Inr (xs, fields_found) \<Rightarrow>
             (case feature_rows source_fields rest of
                Inl e \<Rightarrow> Inl e
              | Inr rows \<Rightarrow> Inr (if fields_found \<ge> 2 then (xs, obj) # rows else rows))))"

definition extract_features ::
  "pydict \<Rightarrow> pydict list \<Rightarrow> py_error + (real list list \<times> pydict list \<times> string list)" where
  "extract_features source_object all_objects =
     (case source_fields_of source_object all_objects of
        Inl e \<Rightarrow> Inl e
      | Inr source_fields \<Rightarrow>
          (case feature_rows source_fields all_objects of
             Inl e \<Rightarrow> Inl e
           | Inr rows \<Rightarrow>
               if rows = [] then Inr ([], [], [])
               else Inr (map fst rows, map snd rows, source_fields)))"

text \<open>
  The numerical library calls, on real numbers. \<^verbatim>\<open>StandardScaler\<close> subtracts the mean of
  each column and divides by its standard deviation, or by 1 for a constant column;
  \<^verbatim>\<open>cosine_similarity\<close> divides each row by its norm, or by 1 for a zero row, and takes the
  dot products; \<^verbatim>\<open>euclidean_distances\<close> takes the norms of the differences.
  \<^verbatim>\<open>numpy.argsort\<close> gives the indices in ascending order of the values; it does not fix
  the order of equal values, and the model, like its sort of a short array, keeps them in
  index order.
\<close>

definition mean :: "real list \<Rightarrow> real" where
  "mean xs = sum_list xs / real (length xs)"

definition scale_column :: "real list \<Rightarrow> real list" where
  "scale_column xs =
     (let m = mean xs;
          s = sqrt (mean (map (\<lambda>x. (x - m) * (x - m)) xs));
          scale = (if s = 0 then 1 else s)
      in map (\<lambda>x. (x - m) / scale) xs)"

definition standard_scale :: "real list list \<Rightarrow> real list list" where
  "standard_scale X =
     (case X of
        [] \<Rightarrow> []
      | row # rows \<Rightarrow>
          let columns = map (\<lambda>j. scale_column (map (\<lambda>r. r ! j) X)) [0..<length row]
          in map (\<lambda>i. map (\<lambda>c. c ! i) columns) [0..<length X])"

definition dot :: "real list \<Rightarrow> real list \<Rightarrow> real" where
  "dot xs ys = sum_list (map2 (*) xs ys)"

definition normalize_row :: "real list \<Rightarrow> real list" where
  "normalize_row xs =
     (let norm = sqrt (dot xs xs); d = (if norm = 0 then 1 else norm)
      in map (\<lambda>x. x / d) xs)"

definition cosine_row :: "real list list \<Rightarrow> nat \<Rightarrow> real list" where
  \<comment> \<open>\<^verbatim>\<open>cosine_similarity(X)[i]\<close>\<close>
  "cosine_row X i = map (\<lambda>r. dot (normalize_row (X ! i)) (normalize_row r)) X"

definition euclidean_row :: "real list list \<Rightarrow> nat \<Rightarrow> real list" where
  \<comment> \<open>\<^verbatim>\<open>euclidean_distances(X)[i]\<close>\<close>
  "euclidean_row X i = map (\<lambda>r. sqrt (sum_list (map2 (\<lambda>a b. (a - b) * (a - b)) (X ! i) r))) X"

definition np_argsort :: "real list \<Rightarrow> nat list" where
  "np_argsort xs = sort_key (\<lambda>i. xs ! i) [0..<length xs]"

fun first_index :: "('a \<Rightarrow> bool) \<Rightarrow> 'a list \<Rightarrow> nat option" where
  \<comment> \<open>the loop with \<^verbatim>\<open>enumerate\<close> that stops at the first hit\<close>
  "first_index P [] = None"
| "first_index P (x # xs) =
     (if P x then Some 0 else map_option Suc (first_index P xs))"

definition find_similar ::
  "string \<Rightarrow> pydict \<Rightarrow> pydict list \<Rightarrow> nat \<Rightarrow> string option \<Rightarrow> py_error + pydict list" where
  \<comment> \<open>\<open>distance_metric\<close> is the attribute of the finder, \<open>cosine\<close> unless it was changed\<close>
  "find_similar distance_metric source_object all_objects n metric =
     (if source_object = [] \<or> all_objects = [] then Inr []
      else
        let metric' = (case metric of
                         None \<Rightarrow> distance_metric
                       | Some m \<Rightarrow> if m = [] then distance_metric else m)
        in case extract_features source_object all_objects of
             Inl e \<Rightarrow> Inl e
           | Inr (features, objs, field_names) \<Rightarrow>
               if length features \<le> 1 then Inr []
               else
                 let scaled_features = standard_scale features;
                     source_id = dict_get source_object ''id'' JNull
                 in case first_index (\<lambda>obj. py_equal (dict_get obj ''id'' JNull) source_id) objs of
                      None \<Rightarrow> Inr []
                    | Some source_idx \<Rightarrow>
                        let indices =
                              (if metric' = ''cosine''
                               then take n (drop 1 (rev (np_argsort
                                      (cosine_row scaled_features source_idx))))
                               else take n (drop 1 (np_argsort
                                      (euclidean_row scaled_features source_idx))))
                        in Inr (source_object # map (\<lambda>i. objs ! i) indices))"

section \<open>Terms of the properties\<close>

definition records_of :: "json \<Rightarrow> json list" where
  \<comment> \<open>the records that a parsed document offers to validation: the elements of a top-level
      list, or what iterating over the \<^verbatim>\<open>objects\<close> entry of a top-level dict yields\<close>
  "records_of raw =
     (case raw of
        JList xs \<Rightarrow> xs
      | JDict d \<Rightarrow> (case py_iter (dict_get d ''objects'' (JList [])) of Inr xs \<Rightarrow> xs | Inl _ \<Rightarrow> [])
      | _ \<Rightarrow> [])"

definition objects_document :: "json list \<Rightarrow> json" where
  \<comment> \<open>the document \<^verbatim>\<open>{"objects": objects}\<close> that the JSON exporter dumps\<close>
  "objects_document objs = JDict [(''objects'', JList objs)]"

section \<open>Example inputs\<close>

definition earth :: json where
  "earth =
     JDict [(''id'', JStr ''E1''), (''scale'', JStr ''planetary''), (''name'', JStr ''Earth''),
            (''data'', JDict [(''orbital_period'', JFloat 365.25)])]"

definition w_empty :: world where
  "w_empty = \<lparr>files = (\<lambda>p. None), writable = (\<lambda>p. True),
      dump_completes = (\<lambda>j. True), parse_completes = (\<lambda>j. True), opened = []\<rparr>"


definition doc_no_valid :: json where
  "doc_no_valid = JDict [(''objects'', JList [JDict [(''id'', JStr ''X'')]])]"

definition w_no_valid :: world where
  "w_no_valid =
     \<lparr>files = (\<lambda>p. if p = ''none.json'' then Some (JsonText doc_no_valid) else None),
      writable = (\<lambda>p. True),
      dump_completes = (\<lambda>j. True), parse_completes = (\<lambda>j. True), opened = []\<rparr>"

definition ghost :: json where
  \<comment> \<open>a record whose name is a lone surrogate, as \<^verbatim>\<open>"name": "\ud800"\<close> is loaded\<close>
  "ghost =
     JDict [(''id'', JStr ''G1''), (''scale'', JStr ''quantum''), (''name'', JStr [lone_surrogate]),
            (''data'', JDict [])]"

definition no_writers :: writers where
  "no_writers =
     \<lparr>export_csv = (\<lambda>w p objs. (Inr True, w)), export_txt = (\<lambda>w p objs. (Inr True, w))\<rparr>"

definition score_of :: "(json \<Rightarrow> string) \<Rightarrow> pydict \<Rightarrow> int" where
  \<comment> \<open>the score of an object whose evaluation returns\<close>
  "score_of py_str obj = (case evaluate_candidate py_str obj of Inl e \<Rightarrow> 0 | Inr s \<Rightarrow> s)"

definition candidate_of ::
  "(json \<Rightarrow> string) \<Rightarrow> (pydict \<Rightarrow> int \<Rightarrow> string) \<Rightarrow> pydict \<Rightarrow> candidate" where
  "candidate_of py_str render obj =
     \<lparr>cand_object = obj, cand_score = score_of py_str obj,
      cand_explanation = render obj (score_of py_str obj)\<rparr>"

definition float_safe :: "pydict \<Rightarrow> bool" where
  \<comment> \<open>no value of the dict is an int beyond the range of a double\<close>
  "float_safe d = list_all (\<lambda>kv. case snd kv of JInt i \<Rightarrow> \<not> float_overflows i | _ \<Rightarrow> True) d"

definition str_of_strings :: "json \<Rightarrow> string" where
  \<comment> \<open>\<^verbatim>\<open>str\<close> on strings, enough for the examples\<close>
  "str_of_strings v = (case v of JStr s \<Rightarrow> s | _ \<Rightarrow> [])"

definition no_text :: "pydict \<Rightarrow> int \<Rightarrow> string" where
  "no_text obj s = []"

definition earth_obj :: pydict where
  "earth_obj =
     [(''id'', JStr ''E1''), (''scale'', JStr ''planetary''), (''name'', JStr ''Earth''),
      (''data'', JDict [(''orbital_period'', JFloat 365.25)])]"

definition quantum_empty :: pydict where
  "quantum_empty =
     [(''id'', JStr ''Q1''), (''scale'', JStr ''quantum''), (''name'', JStr ''Vacuum''),
      (''data'', JDict [])]"

definition data_of :: "pydict \<Rightarrow> pydict" where
  \<comment> \<open>the entries of the \<^verbatim>\<open>data\<close> dict of an object, none when it has no such dict\<close>
  "data_of obj = (case map_of obj ''data'' of Some (JDict d) \<Rightarrow> d | _ \<Rightarrow> [])"

definition recognised_scale :: "pydict \<Rightarrow> bool" where
  \<comment> \<open>the scale of the object is one of the nine names of \<^verbatim>\<open>preferred_scales\<close>\<close>
  "recognised_scale obj = (dict_get obj ''scale'' (JStr '''') \<in> set (map JStr preferred_scales))"

definition cellular_empty :: pydict where
  "cellular_empty =
     [(''id'', JStr ''C1''), (''scale'', JStr ''cellular''), (''name'', JStr ''Cell''),
      (''data'', JDict [])]"

definition cand_earth :: candidate where
  "cand_earth = \<lparr>cand_object = earth_obj, cand_score = 10, cand_explanation = []\<rparr>"

definition cand_quantum_empty :: candidate where
  "cand_quantum_empty = \<lparr>cand_object = quantum_empty, cand_score = 1, cand_explanation = []\<rparr>"

definition cand_cellular_empty :: candidate where
  "cand_cellular_empty =
     \<lparr>cand_object = cellular_empty, cand_score = 1, cand_explanation = []\<rparr>"

definition related_fields :: "string \<Rightarrow> string \<Rightarrow> bool" where
  \<comment> \<open>two field names that the second or the third matching pass pairs: they share one
      of the six terms, or they are equal, or they agree on their first five characters\<close>
  "related_fields field1 field2 = (similar_meaning field1 field2 \<or> similar_prefix field1 field2)"

definition unrelated_data :: "pydict \<Rightarrow> pydict \<Rightarrow> bool" where
  \<comment> \<open>no field name of the first map is related to a field name of the second\<close>
  "unrelated_data d1 d2 =
     list_all (\<lambda>kv1. list_all (\<lambda>kv2. \<not> related_fields (fst kv1) (fst kv2)) d2) d1"

definition electron :: pydict where
  "electron =
     [(''id'', JStr ''Q1''), (''scale'', JStr ''quantum''), (''name'', JStr ''Electron''),
      (''data'', JDict [(''spin'', JStr ''1/2'')])]"

definition photon :: pydict where
  "photon =
     [(''id'', JStr ''Q2''), (''scale'', JStr ''quantum''), (''name'', JStr ''Photon''),
      (''data'', JDict [(''wavelength'', JInt 500)])]"

definition planet_a :: pydict where
  "planet_a =
     [(''id'', JStr ''P1''), (''scale'', JStr ''planetary''), (''name'', JStr ''A''),
      (''data'', JDict [(''orbital_period'', JInt 10)])]"

definition planet_b :: pydict where
  "planet_b =
     [(''id'', JStr ''P2''), (''scale'', JStr ''planetary''), (''name'', JStr ''B''),
      (''data'', JDict [(''rotation_period'', JInt 10)])]"

definition star_b :: pydict where
  "star_b =
     [(''id'', JStr ''S2''), (''scale'', JStr ''stellar''), (''name'', JStr ''B''),
      (''data'', JDict [(''rotation_period'', JInt 10)])]"

definition bound_state :: pydict where
  "bound_state =
     [(''id'', JStr ''A1''), (''scale'', JStr ''atomic''), (''name'', JStr ''Bound state''),
      (''data'', JDict [(''energy'', JInt (- 1))])]"

definition free_state :: pydict where
  "free_state =
     [(''id'', JStr ''Q3''), (''scale'', JStr ''quantum''), (''name'', JStr ''Free state''),
      (''data'', JDict [(''energy'', JInt 2)])]"

definition twin_a :: pydict where
  "twin_a =
     [(''id'', JStr ''T1''), (''scale'', JStr ''stellar''), (''name'', JStr ''Twin A''),
      (''data'', JDict [(''mass'', JInt 1), (''radius'', JInt 2)])]"

definition twin_b :: pydict where
  "twin_b =
     [(''id'', JStr ''T2''), (''scale'', JStr ''stellar''), (''name'', JStr ''Twin B''),
      (''data'', JDict [(''mass'', JInt 1), (''radius'', JInt 2)])]"

section \<open>Loading\<close>

lemma validate_objects_filter: "validate_objects xs = filter valid_object xs"
  by (induction xs) auto

lemma validate_data_valid:
  "validate_data raw = Inr (Some objs) \<Longrightarrow> objs \<noteq> [] \<and> list_all valid_object objs"
  by (auto simp: validate_data_def validate_objects_filter Let_def list_all_iff
      split: json.splits sum.splits option.splits if_splits)

lemma validate_data_no_valid:
  "filter valid_object (records_of raw) = [] \<Longrightarrow>
   validate_data raw = Inr None \<or> validate_data raw = Inl TypeError"
  apply (cases raw)
        apply (simp_all add: validate_data_def records_of_def validate_objects_filter Let_def)
  subgoal for d
    apply (cases "dict_get d ''objects'' (JList [])")
          apply (simp_all add: validate_objects_filter)
    done
  done

lemma validate_data_objects_doc:
  assumes "objs \<noteq> []" and "list_all valid_object objs"
  shows "validate_data (JDict [(''objects'', JList objs)]) = Inr (Some objs)"
  using assms
  by (simp add: validate_data_def dict_get_def validate_objects_filter Let_def list_all_iff)



text \<open>
  Claim C9. When the parsed document offers no valid record (its list of records is empty,
  every record fails a check, or the top-level value is neither a dict nor a list),
  \<open>load_file\<close> returns \<^verbatim>\<open>None\<close>, not an empty list, and \<^verbatim>\<open>self.objects\<close> keeps its
  contents whatever the mode.
\<close>

theorem load_file_no_valid_records:
  assumes "files w file_path = Some (JsonText raw)"
    and "filter valid_object (records_of raw) = []"
  shows "returned (load_file w self_objects file_path append_mode) = None \<and>
         objects (load_file w self_objects file_path append_mode) = self_objects"
  using validate_data_no_valid [OF assms(2)] assms(1)
  by (auto simp: load_file_def load_body_def read_json_def)

theorem load_file_no_valid_records_witness:
  "files w_no_valid ''none.json'' = Some (JsonText doc_no_valid) \<and>
   filter valid_object (records_of doc_no_valid) = [] \<and>
   returned (load_file w_no_valid [earth] ''none.json'' False) = None \<and>
   objects (load_file w_no_valid [earth] ''none.json'' False) = [earth]"
proof -
  have f: "files w_no_valid ''none.json'' = Some (JsonText doc_no_valid)"
    by (simp add: w_no_valid_def)
  have n: "filter valid_object (records_of doc_no_valid) = []"
    by (simp add: doc_no_valid_def records_of_def dict_get_def valid_object_def has_key_def)
  show ?thesis
    using load_file_no_valid_records [OF f n, of "[earth]" False] f n by simp
qed

section \<open>Exporting\<close>

text \<open>
  Claim C10. \<open>export_data\<close> raises \<^verbatim>\<open>ValueError\<close> when the list of objects is empty or
  the format is none of csv, json and txt, and then the world is the one it started from: no
  file was opened and none was written.
\<close>

theorem export_data_rejects:
  assumes "objs = [] \<or> format_type \<notin> {''csv'', ''json'', ''txt''}"
  shows "export_data W w file_path objs format_type = (Inl ValueError, w)"
  using assms by (auto simp: export_data_def)

theorem export_data_rejects_witness:
  "([earth] = [] \<or> ''pdf'' \<notin> {''csv'', ''json'', ''txt''}) \<and>
   export_data no_writers w_empty ''out.pdf'' [earth] ''pdf'' = (Inl ValueError, w_empty)"
  using export_data_rejects [of "[earth]" "''pdf''" no_writers w_empty "''out.pdf''"]
  by simp

text \<open>
  Claim C7, as amended. A non-empty list of objects that all pass the checks of validation
  and whose strings can all be encoded in UTF-8, exported as JSON to a path that can be
  opened for writing and loaded again from that path in replace mode, comes back as the
  same list: the same objects in the same order, each with every entry it had. This is so
  when \<^verbatim>\<open>json.dump\<close> and \<^verbatim>\<open>json.load\<close> reach none of their limits on the document.
\<close>

theorem json_export_reload:
  assumes "objs \<noteq> []" and "list_all valid_object objs" and "list_all encodable objs"
    and "writable w file_path"
    and "dump_completes w (objects_document objs)"
    and "parse_completes w (objects_document objs)"
  shows "fst (export_data W w file_path objs ''json'') = Inr True \<and>
         load_file (snd (export_data W w file_path objs ''json'')) self_objects file_path False =
           \<lparr>returned = Some objs, objects = objs, shown = None\<rparr>"
proof -
  have enc: "encodable (objects_document objs)"
    using assms(3) by (simp add: objects_document_def utf8_encodable_def lone_surrogate_def)
  have val: "validate_data (objects_document objs) = Inr (Some objs)"
    unfolding objects_document_def using assms(1,2) by (rule validate_data_objects_doc)
  show ?thesis
    using assms(1,4,5,6) enc val
    by (simp add: export_data_def export_json_def load_file_def load_body_def read_json_def
        objects_document_def [symmetric])
qed

theorem json_export_reload_witness:
  "[earth] \<noteq> [] \<and> list_all valid_object [earth] \<and> list_all encodable [earth] \<and>
   writable w_empty ''out.json'' \<and>
   dump_completes w_empty (objects_document [earth]) \<and>
   parse_completes w_empty (objects_document [earth]) \<and>
   fst (export_data no_writers w_empty ''out.json'' [earth] ''json'') = Inr True \<and>
   load_file (snd (export_data no_writers w_empty ''out.json'' [earth] ''json'')) []
       ''out.json'' False =
     \<lparr>returned = Some [earth], objects = [earth], shown = None\<rparr>"
proof -
  have v: "list_all valid_object [earth]"
    by (simp add: earth_def valid_object_def has_key_def dict_get_def SCALE_NAMES_def)
  have e: "list_all encodable [earth]"
    by (simp add: earth_def utf8_encodable_def lone_surrogate_def)
  have wr: "writable w_empty ''out.json''"
    and dc: "dump_completes w_empty (objects_document [earth])"
    and pc: "parse_completes w_empty (objects_document [earth])"
    by (simp_all add: w_empty_def)
  show ?thesis
    using json_export_reload [of "[earth]" w_empty "''out.json''" no_writers "[]"] v e wr dc pc
    by simp
qed

text \<open>
  Claim C7 as it is stated fails. The record \<open>ghost\<close>, whose name is a lone surrogate,
  passes validation, as it does when a file with \<^verbatim>\<open>"name": "\ud800"\<close> is loaded. Its
  export raises, leaves a truncated file, and loading that file returns \<^verbatim>\<open>None\<close>.
\<close>

theorem json_export_fails_on_surrogate:
  "validate_data (objects_document [ghost]) = Inr (Some [ghost]) \<and>
   writable w_empty ''out.json'' \<and>
   dump_completes w_empty (objects_document [ghost]) \<and>
   parse_completes w_empty (objects_document [ghost]) \<and>
   fst (export_data no_writers w_empty ''out.json'' [ghost] ''json'') = Inl WrappedException \<and>
   files (snd (export_data no_writers w_empty ''out.json'' [ghost] ''json'')) ''out.json'' =
     Some (TruncatedJson (objects_document [ghost])) \<and>
   returned (load_file (snd (export_data no_writers w_empty ''out.json'' [ghost] ''json'')) []
       ''out.json'' False) = None"
proof -
  have v: "list_all valid_object [ghost]"
    by (simp add: ghost_def valid_object_def has_key_def dict_get_def SCALE_NAMES_def)
  have val: "validate_data (objects_document [ghost]) = Inr (Some [ghost])"
    unfolding objects_document_def using v by (intro validate_data_objects_doc) simp_all
  have ne: "\<not> encodable (objects_document [ghost])"
    by (simp add: objects_document_def ghost_def utf8_encodable_def)
  have ex: "export_data no_writers w_empty ''out.json'' [ghost] ''json'' =
      (Inl WrappedException,
       w_empty\<lparr>files := (files w_empty)(''out.json'' \<mapsto> TruncatedJson (objects_document [ghost])),
         opened := opened w_empty @ [''out.json'']\<rparr>)"
    using ne
    by (simp add: export_data_def export_json_def objects_document_def [symmetric] w_empty_def)
  show ?thesis
    unfolding ex using val
    by (simp add: w_empty_def load_file_def load_body_def read_json_def)
qed

section \<open>Scoring\<close>

lemma category_search_empty: "category_search f cats [] None = None"
  by (induction cats) (simp_all add: truthy_field_def)

lemma criterion_step_empty: "criterion_step S sc [] c st = Inr st"
  by (simp add: criterion_step_def find_match_def category_search_empty truthy_field_def)

lemma run_criteria_empty: "run_criteria S sc [] cs st = Inr st"
  by (induction cs) (simp_all add: criterion_step_empty)

lemma final_score_initial:
  "final_score \<lparr>score = s, criteria_matched = 0, periodicity_matched = 0\<rparr> = min 10 s"
  by (simp add: final_score_def)

lemma evaluate_candidate_empty_data:
  assumes "map_of obj ''data'' = Some (JDict [])"
  shows "evaluate_candidate S obj =
           Inr (if dict_get obj ''scale'' (JStr '''') \<in> set (map JStr preferred_scales) then 1 else 0)"
proof -
  from assms have ne: "obj \<noteq> []" by auto
  from assms have d: "dict_get obj ''data'' (JDict []) = JDict []" by (simp add: dict_get_def)
  show ?thesis
    using assms ne d
    by (simp add: evaluate_candidate_def has_key_def run_criteria_empty final_score_initial Let_def)
qed

lemma match_score_nonneg: "match_score S c v = Inr ms \<Longrightarrow> 0 \<le> ms"
  by (auto simp: match_score_def split: option.splits sum.splits json.splits if_splits prod.splits)

lemma scale_bonus_nonneg: "0 \<le> scale_bonus sc f"
  by (simp add: scale_bonus_def)

lemma criterion_step_mono:
  assumes "0 \<le> c_priority c" and "criterion_step S sc d c st = Inr st'"
  shows "score st \<le> score st'"
proof (cases "\<not> truthy_field (find_match (c_field c) d) \<or> map_option snd (find_match (c_field c) d) = Some JNull")
  case True
  with assms show ?thesis
    by (auto simp: criterion_step_def Let_def split: if_splits)
next
  case False
  then obtain ms where ms: "match_score S c (snd (the (find_match (c_field c) d))) = Inr ms"
    using assms(2) by (auto simp: criterion_step_def Let_def split: sum.splits)
  have "0 \<le> ms" using ms by (rule match_score_nonneg)
  then have "0 \<le> ms * c_priority c" using assms(1) by simp
  moreover have "0 \<le> scale_bonus sc (fst (the (find_match (c_field c) d)))" by (rule scale_bonus_nonneg)
  ultimately show ?thesis
    using False assms(2) ms
    by (auto simp: criterion_step_def Let_def split: if_splits)
qed

lemma run_criteria_mono:
  "list_all (\<lambda>c. 0 \<le> c_priority c) cs \<Longrightarrow> run_criteria S sc d cs st = Inr st' \<Longrightarrow> score st \<le> score st'"
proof (induction cs arbitrary: st)
  case Nil
  then show ?case by simp
next
  case (Cons c cs)
  from Cons.prems obtain st1 where s1: "criterion_step S sc d c st = Inr st1"
    and r: "run_criteria S sc d cs st1 = Inr st'"
    by (auto split: sum.splits)
  have "score st \<le> score st1" using Cons.prems(1) s1 by (auto intro: criterion_step_mono)
  moreover have "score st1 \<le> score st'" using Cons.IH Cons.prems(1) r by simp
  ultimately show ?case by simp
qed

lemma criteria_priorities: "list_all (\<lambda>c. 0 \<le> c_priority c) criteria"
  by (simp add: criteria_def exists_criterion_def)

lemma final_score_bounds: "0 \<le> score st \<Longrightarrow> 0 \<le> final_score st \<and> final_score st \<le> 10"
  by (simp add: final_score_def Let_def)

lemma evaluate_candidate_bounds:
  assumes "evaluate_candidate S obj = Inr s"
  shows "0 \<le> s \<and> s \<le> 10"
proof (cases "obj = [] \<or> \<not> has_key obj ''data''")
  case True
  with assms show ?thesis by (simp add: evaluate_candidate_def)
next
  case False
  let ?sc = "dict_get obj ''scale'' (JStr '''')"
  let ?s0 = "if ?sc \<in> set (map JStr preferred_scales) then 1 else (0::int)"
  from False assms obtain d st where
    d: "dict_get obj ''data'' (JDict []) = JDict d"
    and r: "run_criteria S ?sc d criteria \<lparr>score = ?s0, criteria_matched = 0, periodicity_matched = 0\<rparr> = Inr st"
    and s: "s = final_score st"
    by (auto simp: evaluate_candidate_def Let_def split: json.splits sum.splits)
  have "score \<lparr>score = ?s0, criteria_matched = 0, periodicity_matched = 0\<rparr> \<le> score st"
    using criteria_priorities r by (rule run_criteria_mono)
  then have "0 \<le> score st" by (simp split: if_splits)
  then show ?thesis using s final_score_bounds by simp
qed

lemma collect_candidates_closed_form:
  "collect_candidates S R objs = Inr cs \<Longrightarrow>
   cs = map (candidate_of S R) (filter (\<lambda>obj. 0 < score_of S obj) objs)"
proof (induction objs arbitrary: cs)
  case Nil
  then show ?case by simp
next
  case (Cons obj rest)
  then show ?case
    by (auto simp: candidate_of_def score_of_def generate_explanation_def
        split: sum.splits if_splits)
qed

lemma find_candidates_closed_form:
  assumes "find_candidates S R objs = Inr cs"
  shows "cs = sort_key (\<lambda>c. - cand_score c)
                (map (candidate_of S R) (filter (\<lambda>obj. 0 < score_of S obj) objs))"
  using assms collect_candidates_closed_form
  by (auto simp: find_candidates_def split: sum.splits)

lemma score_of_bounds: "0 \<le> score_of S obj \<and> score_of S obj \<le> 10"
  using evaluate_candidate_bounds [of S obj]
  by (auto simp: score_of_def split: sum.splits)

lemma sorted_desc_sort_key:
  "sorted_wrt (\<lambda>a b. b \<le> a) (map cand_score (sort_key (\<lambda>c. - cand_score c) xs))"
proof -
  have "sorted (map (\<lambda>c. - cand_score c) (sort_key (\<lambda>c. - cand_score c) xs))"
    by (rule sorted_sort_key)
  then show ?thesis
    by (simp add: sorted_wrt_map)
qed

lemma stable_sort_key_score:
  "filter (\<lambda>c. cand_score c = k) (sort_key (\<lambda>c. - cand_score c) xs) =
   filter (\<lambda>c. cand_score c = k) xs"
  using sort_key_stable [of "\<lambda>c. - cand_score c" "- k" xs] by simp

lemma category_search_member:
  "(\<And>kv. m = Some kv \<Longrightarrow> kv \<in> set d) \<Longrightarrow> category_search f cats d m = Some kv \<Longrightarrow> kv \<in> set d"
proof (induction cats arbitrary: m)
  case Nil
  then show ?case by simp
next
  case (Cons a cats)
  let ?m' = "if f \<in> set a then (case find (\<lambda>kv. fst kv \<in> set a) d of None \<Rightarrow> m | Some kv \<Rightarrow> Some kv) else m"
  have inv: "\<And>kv. ?m' = Some kv \<Longrightarrow> kv \<in> set d"
    using Cons.prems(1) by (auto split: if_splits option.splits simp: find_Some_iff in_set_conv_nth)
  show ?case
  proof (cases "truthy_field ?m'")
    case True
    with Cons.prems(2) have "?m' = Some kv" by (simp add: Let_def)
    with inv show ?thesis by blast
  next
    case False
    with Cons.prems(2) have "category_search f cats d ?m' = Some kv" by (simp add: Let_def)
    with Cons.IH inv show ?thesis by blast
  qed
qed

lemma find_match_member: "find_match f d = Some (k, v) \<Longrightarrow> (k, v) \<in> set d"
  using category_search_member [of None d f field_categories "(k, v)"]
  by (auto simp: find_match_def split: option.splits dest: map_of_SomeD)

lemma extract_numeric_value_total:
  "float_safe d \<Longrightarrow> (k, v) \<in> set d \<Longrightarrow> \<exists>r. extract_numeric_value v = Inr r"
  by (auto simp: float_safe_def list_all_iff extract_numeric_value_def split: json.splits)

lemma match_score_total:
  "float_safe d \<Longrightarrow> (k, v) \<in> set d \<Longrightarrow> \<exists>ms. match_score S c v = Inr ms"
  using extract_numeric_value_total [of d k v]
  by (auto simp: match_score_def split: option.splits sum.splits json.splits prod.splits)

lemma criterion_step_total:
  assumes "float_safe d"
  shows "\<exists>st'. criterion_step S sc d c st = Inr st'"
proof (cases "\<not> truthy_field (find_match (c_field c) d) \<or> map_option snd (find_match (c_field c) d) = Some JNull")
  case True
  then show ?thesis by (simp add: criterion_step_def Let_def)
next
  case False
  then obtain k v where m: "find_match (c_field c) d = Some (k, v)"
    by (cases "find_match (c_field c) d") (auto simp: truthy_field_def)
  then have "(k, v) \<in> set d" by (rule find_match_member)
  with assms obtain ms where "match_score S c v = Inr ms"
    using match_score_total by blast
  with False m show ?thesis by (simp add: criterion_step_def Let_def)
qed

lemma run_criteria_total:
  "float_safe d \<Longrightarrow> \<exists>st'. run_criteria S sc d cs st = Inr st'"
proof (induction cs arbitrary: st)
  case Nil
  then show ?case by simp
next
  case (Cons c cs)
  from Cons.prems obtain st1 where "criterion_step S sc d c st = Inr st1"
    using criterion_step_total by blast
  with Cons show ?case by simp
qed

lemma evaluate_candidate_total:
  assumes "map_of obj ''data'' = Some (JDict d)" and "float_safe d"
  shows "\<exists>s. evaluate_candidate S obj = Inr s"
proof -
  from assms(1) have ne: "obj \<noteq> []" by auto
  obtain st where "run_criteria S (dict_get obj ''scale'' (JStr ''''))  d criteria
      \<lparr>score = (if dict_get obj ''scale'' (JStr '''') \<in> set (map JStr preferred_scales) then 1 else 0),
       criteria_matched = 0, periodicity_matched = 0\<rparr> = Inr st"
    using run_criteria_total [OF assms(2)] by blast
  with assms(1) ne show ?thesis
    by (simp add: evaluate_candidate_def has_key_def dict_get_def Let_def)
qed

lemma valid_object_hashable_scale:
  "valid_object (JDict obj) \<Longrightarrow> hashable (dict_get obj ''scale'' (JStr ''unknown''))"
  by (auto simp: valid_object_def has_key_def dict_get_def split: if_splits option.splits)

lemma valid_object_data: "valid_object (JDict obj) \<Longrightarrow> map_of obj ''data'' = Some (JDict (data_of obj))"
  by (auto simp: valid_object_def data_of_def split: if_splits option.splits json.splits)

lemma collect_candidates_total:
  "\<forall>obj \<in> set objs. valid_object (JDict obj) \<and> float_safe (data_of obj) \<Longrightarrow>
   \<exists>cs. collect_candidates S R objs = Inr cs"
proof (induction objs)
  case Nil
  then show ?case by simp
next
  case (Cons obj rest)
  then obtain cs where cs: "collect_candidates S R rest = Inr cs" by auto
  from Cons.prems have v: "valid_object (JDict obj)" and f: "float_safe (data_of obj)" by auto
  obtain s where s: "evaluate_candidate S obj = Inr s"
    using evaluate_candidate_total [OF valid_object_data [OF v] f] by blast
  show ?case
    using cs s valid_object_hashable_scale [OF v]
    by (simp add: generate_explanation_def)
qed

lemma find_candidates_total:
  "\<forall>obj \<in> set objs. valid_object (JDict obj) \<and> float_safe (data_of obj) \<Longrightarrow>
   \<exists>cs. find_candidates S R objs = Inr cs"
  using collect_candidates_total [of objs S R]
  by (auto simp: find_candidates_def)

lemma find_candidates_set:
  assumes "find_candidates S R objs = Inr cs"
  shows "set cs = candidate_of S R ` {obj \<in> set objs. 0 < score_of S obj}"
proof -
  have "cs = sort_key (\<lambda>c. - cand_score c)
               (map (candidate_of S R) (filter (\<lambda>obj. 0 < score_of S obj) objs))"
    using assms by (rule find_candidates_closed_form)
  then have "set cs = set (map (candidate_of S R) (filter (\<lambda>obj. 0 < score_of S obj) objs))"
    by (simp only: set_sort)
  then show ?thesis by simp
qed

lemma cand_object_candidate_of: "cand_object (candidate_of S R obj) = obj"
  by (simp add: candidate_of_def)

lemma cand_score_candidate_of: "cand_score (candidate_of S R obj) = score_of S obj"
  by (simp add: candidate_of_def)

lemma find_candidates_objects:
  assumes "find_candidates S R objs = Inr cs"
  shows "set (map cand_object cs) = {obj \<in> set objs. 0 < score_of S obj}"
proof -
  have "set (map cand_object cs) = cand_object ` candidate_of S R ` {obj \<in> set objs. 0 < score_of S obj}"
    using find_candidates_set [OF assms] by simp
  also have "\<dots> = {obj \<in> set objs. 0 < score_of S obj}"
    by (simp only: image_image cand_object_candidate_of image_ident)
  finally show ?thesis .
qed

lemma find_candidates_scores:
  assumes "find_candidates S R objs = Inr cs" and "c \<in> set cs"
  shows "0 < cand_score c \<and> cand_score c \<le> 10"
proof -
  from assms(2) find_candidates_set [OF assms(1)]
  obtain obj where c: "c = candidate_of S R obj" and p: "0 < score_of S obj"
    by blast
  show ?thesis
    using p score_of_bounds [of S obj] unfolding c cand_score_candidate_of by simp
qed

lemma earth_obj_score: "evaluate_candidate str_of_strings earth_obj = Inr 10"
  by code_simp

lemma quantum_empty_data: "map_of quantum_empty ''data'' = Some (JDict [])"
  by (simp add: quantum_empty_def)

lemma quantum_empty_recognised: "recognised_scale quantum_empty"
  by (simp add: recognised_scale_def quantum_empty_def dict_get_def preferred_scales_def)

lemma quantum_empty_score: "evaluate_candidate S quantum_empty = Inr 1"
  using evaluate_candidate_empty_data [OF quantum_empty_data, of S] quantum_empty_recognised
  by (simp add: recognised_scale_def)

lemma cellular_empty_score: "evaluate_candidate S cellular_empty = Inr 1"
proof -
  have "map_of cellular_empty ''data'' = Some (JDict [])"
    by (simp add: cellular_empty_def)
  from evaluate_candidate_empty_data [OF this, of S] show ?thesis
    by (simp add: cellular_empty_def dict_get_def preferred_scales_def)
qed

lemma example_explanations:
  "generate_explanation no_text earth_obj s = Inr []"
  "generate_explanation no_text quantum_empty s = Inr []"
  "generate_explanation no_text cellular_empty s = Inr []"
  by (simp_all add: generate_explanation_def no_text_def dict_get_def earth_obj_def
      quantum_empty_def cellular_empty_def)

lemma find_candidates_example:
  "find_candidates str_of_strings no_text [quantum_empty, earth_obj, cellular_empty] =
     Inr [cand_earth, cand_quantum_empty, cand_cellular_empty]"
  by (simp add: find_candidates_def earth_obj_score quantum_empty_score cellular_empty_score
      example_explanations cand_earth_def cand_quantum_empty_def cand_cellular_empty_def)

section \<open>Properties of the detector\<close>

text \<open>
  Claim C1, as amended. An object whose \<^verbatim>\<open>data\<close> dict is present and empty scores 1 when
  its scale is one of the nine names of \<^verbatim>\<open>preferred_scales\<close> and 0 otherwise: the point
  for a recognised scale is given before the data is looked at. \<open>find_candidates\<close> lists
  the object in the first case and leaves it out in the second.
\<close>

theorem empty_data_score:
  assumes "map_of obj ''data'' = Some (JDict [])"
  shows "evaluate_candidate S obj = Inr (if recognised_scale obj then 1 else 0) \<and>
         (find_candidates S R objs = Inr cs \<longrightarrow> obj \<in> set objs \<longrightarrow>
            (obj \<in> set (map cand_object cs)) = recognised_scale obj)"
proof -
  have e: "evaluate_candidate S obj = Inr (if recognised_scale obj then 1 else 0)"
    using evaluate_candidate_empty_data [OF assms] by (simp add: recognised_scale_def)
  then have "(0 < score_of S obj) = recognised_scale obj"
    by (simp add: score_of_def)
  then have "find_candidates S R objs = Inr cs \<longrightarrow> obj \<in> set objs \<longrightarrow>
            (obj \<in> set (map cand_object cs)) = recognised_scale obj"
    using find_candidates_objects [of S R objs cs] by auto
  with e show ?thesis by blast
qed

theorem empty_data_score_witness:
  "map_of quantum_empty ''data'' = Some (JDict []) \<and>
   evaluate_candidate str_of_strings quantum_empty = Inr 1 \<and>
   find_candidates str_of_strings no_text [quantum_empty, earth_obj, cellular_empty] =
     Inr [cand_earth, cand_quantum_empty, cand_cellular_empty] \<and>
   quantum_empty \<in> set [quantum_empty, earth_obj, cellular_empty] \<and>
   quantum_empty \<in> set (map cand_object [cand_earth, cand_quantum_empty, cand_cellular_empty]) \<and>
   recognised_scale quantum_empty"
  using empty_data_score [OF quantum_empty_data, of str_of_strings no_text
      "[quantum_empty, earth_obj, cellular_empty]"
      "[cand_earth, cand_quantum_empty, cand_cellular_empty]"]
    quantum_empty_data quantum_empty_recognised find_candidates_example
  by simp

text \<open>
  Claim C1 as it is stated fails: the object \<open>quantum_empty\<close> has an empty \<^verbatim>\<open>data\<close> dict
  and the scale quantum; its score is 1 and \<open>find_candidates\<close> returns it.
\<close>

theorem empty_data_scores_one:
  "map_of quantum_empty ''data'' = Some (JDict []) \<and>
   evaluate_candidate str_of_strings quantum_empty = Inr 1 \<and>
   find_candidates str_of_strings no_text [quantum_empty] = Inr [cand_quantum_empty]"
  by (simp add: quantum_empty_data find_candidates_def quantum_empty_score
      example_explanations cand_quantum_empty_def)

text \<open>
  Claim C5. A score that \<open>evaluate_candidate\<close> returns lies between 0 and 10, every
  candidate that \<open>find_candidates\<close> returns has a score above 0 and at most 10, and the
  evaluation does return a score for an object whose \<^verbatim>\<open>data\<close> entry is a dict with no
  int beyond the range of a double.
\<close>

theorem score_within_bounds:
  "(evaluate_candidate S obj = Inr s \<longrightarrow> 0 \<le> s \<and> s \<le> 10) \<and>
   (find_candidates S R objs = Inr cs \<longrightarrow>
      (\<forall>c \<in> set cs. 0 < cand_score c \<and> cand_score c \<le> 10)) \<and>
   (map_of obj ''data'' = Some (JDict d) \<and> float_safe d \<longrightarrow>
      (\<exists>s'. evaluate_candidate S obj = Inr s'))"
  using evaluate_candidate_bounds [of S obj s] find_candidates_scores [of S R objs cs]
    evaluate_candidate_total [of obj d S]
  by blast

theorem score_within_bounds_witness:
  "evaluate_candidate str_of_strings earth_obj = Inr 10 \<and> (0::int) \<le> 10 \<and> (10::int) \<le> 10 \<and>
   find_candidates str_of_strings no_text [quantum_empty, earth_obj, cellular_empty] =
     Inr [cand_earth, cand_quantum_empty, cand_cellular_empty] \<and>
   0 < cand_score cand_earth \<and> cand_score cand_earth \<le> 10 \<and>
   0 < cand_score cand_quantum_empty \<and> cand_score cand_quantum_empty \<le> 10 \<and>
   map_of earth_obj ''data'' = Some (JDict [(''orbital_period'', JFloat 365.25)]) \<and>
   float_safe [(''orbital_period'', JFloat 365.25)]"
proof -
  have d: "map_of earth_obj ''data'' = Some (JDict [(''orbital_period'', JFloat 365.25)])"
    by (simp add: earth_obj_def)
  have f: "float_safe [(''orbital_period'', JFloat 365.25)]"
    by (simp add: float_safe_def)
  show ?thesis
    using score_within_bounds [of str_of_strings earth_obj 10 no_text
        "[quantum_empty, earth_obj, cellular_empty]"
        "[cand_earth, cand_quantum_empty, cand_cellular_empty]"
        "[(''orbital_period'', JFloat 365.25)]"]
      earth_obj_score find_candidates_example d f
    by simp
qed

text \<open>
  Claim C6. The result of \<open>find_candidates\<close> is a function of the list of objects: the
  source reads nothing else but the constant table of criteria, and a dict is iterated in
  insertion order. The result is the stable sort, by descending score, of the candidates
  of the objects with a positive score: the scores never increase along the result, and
  for every score the objects with that score stand in the order they have in the input.
\<close>

theorem find_candidates_sorted_stable:
  assumes "find_candidates S R objs = Inr cs"
  shows "cs = sort_key (\<lambda>c. - cand_score c)
                (map (candidate_of S R) (filter (\<lambda>obj. 0 < score_of S obj) objs)) \<and>
         sorted_wrt (\<lambda>a b. b \<le> a) (map cand_score cs) \<and>
         (\<forall>k. map cand_object (filter (\<lambda>c. cand_score c = k) cs) =
               filter (\<lambda>obj. 0 < score_of S obj \<and> score_of S obj = k) objs)"
proof -
  let ?pre = "map (candidate_of S R) (filter (\<lambda>obj. 0 < score_of S obj) objs)"
  have cf: "cs = sort_key (\<lambda>c. - cand_score c) ?pre"
    using assms by (rule find_candidates_closed_form)
  have srt: "sorted_wrt (\<lambda>a b. b \<le> a) (map cand_score cs)"
    unfolding cf by (rule sorted_desc_sort_key)
  have st: "map cand_object (filter (\<lambda>c. cand_score c = k) cs) =
            filter (\<lambda>obj. 0 < score_of S obj \<and> score_of S obj = k) objs" for k
  proof -
    have "filter (\<lambda>c. cand_score c = k) cs = filter (\<lambda>c. cand_score c = k) ?pre"
      unfolding cf by (rule stable_sort_key_score)
    also have "\<dots> = map (candidate_of S R)
                       (filter (\<lambda>obj. 0 < score_of S obj \<and> score_of S obj = k) objs)"
      by (simp add: filter_map o_def candidate_of_def conj_commute)
    finally show ?thesis
      by (simp add: o_def candidate_of_def)
  qed
  from cf srt st show ?thesis by blast
qed

theorem find_candidates_sorted_stable_witness:
  "find_candidates str_of_strings no_text [quantum_empty, earth_obj, cellular_empty] =
     Inr [cand_earth, cand_quantum_empty, cand_cellular_empty] \<and>
   map cand_score [cand_earth, cand_quantum_empty, cand_cellular_empty] = [10, 1, 1] \<and>
   [cand_earth, cand_quantum_empty, cand_cellular_empty] =
     sort_key (\<lambda>c. - cand_score c)
       (map (candidate_of str_of_strings no_text)
          (filter (\<lambda>obj. 0 < score_of str_of_strings obj)
             [quantum_empty, earth_obj, cellular_empty])) \<and>
   sorted_wrt (\<lambda>a b. b \<le> a) (map cand_score [cand_earth, cand_quantum_empty, cand_cellular_empty]) \<and>
   (\<forall>k. map cand_object
          (filter (\<lambda>c. cand_score c = k) [cand_earth, cand_quantum_empty, cand_cellular_empty]) =
        filter (\<lambda>obj. 0 < score_of str_of_strings obj \<and> score_of str_of_strings obj = k)
          [quantum_empty, earth_obj, cellular_empty])"
proof -
  have sc: "map cand_score [cand_earth, cand_quantum_empty, cand_cellular_empty] = [10, 1, 1]"
    by (simp add: cand_earth_def cand_quantum_empty_def cand_cellular_empty_def)
  show ?thesis
    using find_candidates_sorted_stable [OF find_candidates_example] find_candidates_example sc
    by blast
qed

section \<open>Properties of the similarity of the views\<close>

lemma exact_fields_dict:
  "exact_fields (JDict d1) (JDict d2) fs = Inr (filter (\<lambda>f. has_key d1 f \<and> has_key d2 f) fs)"
  by (induction fs) simp_all

lemma has_key_iff: "has_key d k \<longleftrightarrow> k \<in> fst ` set d"
  by (simp add: has_key_def map_of_eq_None_iff)

lemma pair_loop_none:
  "list_all (\<lambda>kv1. list_all (\<lambda>kv2. \<not> similar (fst kv1) (fst kv2)) d2) d1 \<Longrightarrow>
   pair_loop similar d1 (JDict d2) = Inr []"
proof (induction d1)
  case Nil
  then show ?case by simp
next
  case (Cons kv1 rest)
  then have "find (\<lambda>kv2. similar (fst kv1) (fst kv2)) d2 = None"
    by (auto simp: find_None_iff list_all_iff)
  with Cons show ?case by simp
qed

lemma unrelated_no_common_key:
  assumes "unrelated_data d1 d2"
  shows "filter (\<lambda>f. has_key d1 f \<and> has_key d2 f) fs = []"
proof -
  have "\<not> (has_key d1 f \<and> has_key d2 f)" for f
  proof
    assume "has_key d1 f \<and> has_key d2 f"
    then obtain kv1 kv2 where k1: "kv1 \<in> set d1" "fst kv1 = f" and k2: "kv2 \<in> set d2" "fst kv2 = f"
      by (auto simp: has_key_iff)
    from assms k1(1) k2(1) have "\<not> related_fields (fst kv1) (fst kv2)"
      by (simp add: unrelated_data_def list_all_iff)
    then show False
      unfolding k1(2) k2(2) by (simp add: related_fields_def similar_prefix_def)
  qed
  then show ?thesis by simp
qed

lemma unrelated_matching_props:
  assumes "unrelated_data d1 d2"
  shows "matching_props (JDict d1) (JDict d2) property_fields = Inr []"
proof -
  have m: "list_all (\<lambda>kv1. list_all (\<lambda>kv2. \<not> similar_meaning (fst kv1) (fst kv2)) d2) d1"
    using assms by (auto simp: unrelated_data_def related_fields_def list_all_iff)
  have p: "list_all (\<lambda>kv1. list_all (\<lambda>kv2. \<not> similar_prefix (fst kv1) (fst kv2)) d2) d1"
    using assms by (auto simp: unrelated_data_def related_fields_def list_all_iff)
  show ?thesis
    by (simp add: matching_props_def exact_fields_dict unrelated_no_common_key [OF assms]
        paired_fields_def pair_loop_none [OF m] pair_loop_none [OF p])
qed

lemma views_floor:
  assumes "matching_props (dict_get obj1 ''data'' (JDict [])) (dict_get obj2 ''data'' (JDict []))
             property_fields = Inr []"
  shows "heatmap_similarity obj1 obj2 property_fields = Inr (if same_scale obj1 obj2 then 0.3 else 0.1)"
    and "netgraph_similarity obj1 obj2 property_fields = Inr (if same_scale obj1 obj2 then 0.2 else 0.1)"
  using assms by (simp_all add: heatmap_similarity_def netgraph_similarity_def)

lemma views_agree:
  assumes "matching_props (dict_get obj1 ''data'' (JDict [])) (dict_get obj2 ''data'' (JDict []))
             property_fields \<noteq> Inr []"
  shows "heatmap_similarity obj1 obj2 property_fields = netgraph_similarity obj1 obj2 property_fields"
proof (cases "matching_props (dict_get obj1 ''data'' (JDict [])) (dict_get obj2 ''data'' (JDict []))
             property_fields")
  case (Inl e)
  then show ?thesis by (simp add: heatmap_similarity_def netgraph_similarity_def)
next
  case (Inr props)
  with assms have "props \<noteq> []" by simp
  with Inr show ?thesis by (simp add: heatmap_similarity_def netgraph_similarity_def)
qed

lemma views_at_most_one:
  "heatmap_similarity obj1 obj2 property_fields = Inr s \<Longrightarrow> s \<le> 1"
  "netgraph_similarity obj1 obj2 property_fields = Inr s \<Longrightarrow> s \<le> 1"
  by (auto simp: heatmap_similarity_def netgraph_similarity_def Let_def split: sum.splits if_splits)

text \<open>
  Claim C3, as amended. When the \<^verbatim>\<open>data\<close> entries of two objects are dicts and no field
  name of the first is related to a field name of the second (they have no name in common,
  no two names that contain one of the terms period, frequency, mass, energy, time and
  cycle, and no two names that agree on their first five characters), the heatmap's
  similarity is exactly 0.3 when the two scales are equal and exactly 0.1 when they are not.
\<close>

theorem heatmap_floor:
  assumes "dict_get obj1 ''data'' (JDict []) = JDict d1"
    and "dict_get obj2 ''data'' (JDict []) = JDict d2"
    and "unrelated_data d1 d2"
  shows "heatmap_similarity obj1 obj2 property_fields =
           Inr (if same_scale obj1 obj2 then 0.3 else 0.1)"
  using assms(1,2) unrelated_matching_props [OF assms(3)]
  by (simp add: heatmap_similarity_def)

theorem heatmap_floor_witness:
  "dict_get electron ''data'' (JDict []) = JDict [(''spin'', JStr ''1/2'')] \<and>
   dict_get photon ''data'' (JDict []) = JDict [(''wavelength'', JInt 500)] \<and>
   unrelated_data [(''spin'', JStr ''1/2'')] [(''wavelength'', JInt 500)] \<and>
   same_scale electron photon \<and>
   heatmap_similarity electron photon (heatmap_property_fields ''energy'') = Inr 0.3"
proof -
  have d1: "dict_get electron ''data'' (JDict []) = JDict [(''spin'', JStr ''1/2'')]"
    by (simp add: electron_def dict_get_def)
  have d2: "dict_get photon ''data'' (JDict []) = JDict [(''wavelength'', JInt 500)]"
    by (simp add: photon_def dict_get_def)
  have u: "unrelated_data [(''spin'', JStr ''1/2'')] [(''wavelength'', JInt 500)]"
    by code_simp
  have s: "same_scale electron photon"
    by code_simp
  show ?thesis
    using heatmap_floor [OF d1 d2 u, of "heatmap_property_fields ''energy''"] d1 d2 u s
    by simp
qed

text \<open>
  Claim C3 as it is stated fails. The objects \<open>planet_a\<close> and \<open>planet_b\<close> have the same
  scale and no field name in common, but \<^verbatim>\<open>orbital_period\<close> and \<^verbatim>\<open>rotation_period\<close> both
  contain the term period: the pair is matched and the similarity is 0.6. With \<open>star_b\<close>,
  of another scale, it is 0.3.
\<close>

theorem heatmap_related_names:
  "set (map fst (data_of planet_a)) \<inter> set (map fst (data_of planet_b)) = {} \<and>
   same_scale planet_a planet_b \<and>
   heatmap_similarity planet_a planet_b (heatmap_property_fields ''periodicity'') = Inr 0.6 \<and>
   set (map fst (data_of planet_a)) \<inter> set (map fst (data_of star_b)) = {} \<and>
   \<not> same_scale planet_a star_b \<and>
   heatmap_similarity planet_a star_b (heatmap_property_fields ''periodicity'') = Inr 0.3"
proof -
  have n1: "set (map fst (data_of planet_a)) \<inter> set (map fst (data_of planet_b)) = {}"
    by (simp add: data_of_def planet_a_def planet_b_def)
  have n2: "set (map fst (data_of planet_a)) \<inter> set (map fst (data_of star_b)) = {}"
    by (simp add: data_of_def planet_a_def star_b_def)
  have s1: "same_scale planet_a planet_b"
    by code_simp
  have s2: "\<not> same_scale planet_a star_b"
    by code_simp
  have h1: "heatmap_similarity planet_a planet_b (heatmap_property_fields ''periodicity'') = Inr 0.6"
    by code_simp
  have h2: "heatmap_similarity planet_a star_b (heatmap_property_fields ''periodicity'') = Inr 0.3"
    by code_simp
  from n1 n2 s1 s2 h1 h2 show ?thesis by blast
qed

text \<open>
  Claim C4 at the objects \<open>bound_state\<close> and \<open>free_state\<close>, of different scales, whose
  \<^verbatim>\<open>energy\<close> fields hold -1 and 2: the field is matched, the ratio of the smaller to the
  larger value is negative, and both views return -0.25, below the range from 0 to 1. The
  result is bounded from above only (\<open>views_at_most_one\<close>); the rest of the claim holds
  (\<open>views_agree\<close>, \<open>views_floor\<close>).
\<close>

theorem views_negative_similarity:
  "heatmap_similarity bound_state free_state (heatmap_property_fields ''energy'') = Inr (- 0.25) \<and>
   netgraph_similarity bound_state free_state (netgraph_property_fields ''energy'') = Inr (- 0.25)"
  by code_simp

section \<open>Properties of the similarity finder\<close>

lemma find_similar_shape:
  assumes "find_similar dm source_object all_objects n metric = Inr r"
  shows "r = [] \<or> (hd r = source_object \<and> length r \<le> n + 1)"
  using assms
  by (auto simp: find_similar_def Let_def split: if_splits sum.splits prod.splits option.splits)

lemma find_similar_nonempty:
  assumes "source_object \<noteq> []"
    and "extract_features source_object all_objects = Inr (features, objs, fs)"
    and "length features \<ge> 2"
    and "first_index (\<lambda>obj. py_equal (dict_get obj ''id'' JNull) (dict_get source_object ''id'' JNull)) objs = Some i"
  shows "\<exists>tail. find_similar dm source_object all_objects n metric = Inr (source_object # tail) \<and> length tail \<le> n"
proof -
  from assms(2,3) have "all_objects \<noteq> []"
    by (auto simp: extract_features_def split: sum.splits if_splits)
  with assms show ?thesis
    by (auto simp: find_similar_def Let_def)
qed

lemma twin_features:
  "extract_features twin_a [twin_a, twin_b] =
     Inr ([[1, 2], [1, 2]], [twin_a, twin_b], [''mass'', ''radius''])"
  by code_simp

lemma twin_source_index:
  "first_index (\<lambda>obj. py_equal (dict_get obj ''id'' JNull) (dict_get twin_a ''id'' JNull))
     [twin_a, twin_b] = Some 0"
  by code_simp

lemma twin_scaled: "standard_scale [[1, 2], [1, 2]] = [[0, 0], [0, 0]]"
  by (simp add: standard_scale_def scale_column_def mean_def Let_def)

lemma zero_cosine_row: "cosine_row [[0, 0], [0, 0]] 0 = [0, 0]"
  by (simp add: cosine_row_def normalize_row_def dot_def)

lemma argsort_tie: "np_argsort [0, 0] = [0, 1]"
  by (simp add: np_argsort_def)

lemma twice_features:
  "extract_features twin_a [twin_a, twin_a] =
     Inr ([[1, 2], [1, 2]], [twin_a, twin_a], [''mass'', ''radius''])"
  by code_simp

lemma twice_source_index:
  "first_index (\<lambda>obj. py_equal (dict_get obj ''id'' JNull) (dict_get twin_a ''id'' JNull))
     [twin_a, twin_a] = Some 0"
  by code_simp

text \<open>
  Claim C2 at two inputs with the default metric. In the first the list holds the source
  \<open>twin_a\<close> and \<open>twin_b\<close>, another object with the same numeric values: every scaled
  feature is 0, every similarity in the row of the source is 0, and dropping the first
  index of the reversed order drops \<open>twin_b\<close>, not the source. In the second the list
  holds the record of the source twice. Both times the result is the source followed by
  the source: the first element and the length are as claimed (\<open>find_similar_shape\<close>,
  \<open>find_similar_nonempty\<close>), but the rest of the list does not exclude the source.
\<close>

theorem find_similar_returns_source_twice:
  "find_similar ''cosine'' twin_a [twin_a, twin_b] 5 None = Inr [twin_a, twin_a] \<and>
   find_similar ''cosine'' twin_a [twin_a, twin_a] 5 None = Inr [twin_a, twin_a]"
proof -
  have ne: "twin_a \<noteq> []"
    by (simp add: twin_a_def)
  have 1: "find_similar ''cosine'' twin_a [twin_a, twin_b] 5 None = Inr [twin_a, twin_a]"
    using ne
    by (simp add: find_similar_def twin_features twin_source_index twin_scaled zero_cosine_row
        argsort_tie del: first_index.simps)
  have 2: "find_similar ''cosine'' twin_a [twin_a, twin_a] 5 None = Inr [twin_a, twin_a]"
    using ne
    by (simp add: find_similar_def twice_features twice_source_index twin_scaled zero_cosine_row
        argsort_tie del: first_index.simps)
  from 1 2 show ?thesis by simp
qed

end
